theory Spec2Isabelle
  imports Complex_Main
begin

section \<open>Vectors, matrices and quaternions\<close>

text \<open>
  The source computes on \<open>double\<close>; the embedding computes on \<open>real\<close>. Fixed-size Eigen
  vectors of dimension 2 and 3 are tuples, \<open>base::Vector6d\<close> and all matrices are total
  functions on indices (an entry outside the matrix's extent is never read by the code
  that is modelled), and the dynamically sized \<open>VectorXd\<close> is a list whose accesses are
  checked.
\<close>

type_synonym vec2 = "real \<times> real"
type_synonym vec3 = "real \<times> real \<times> real"
type_synonym vec6 = "nat \<Rightarrow> real"
type_synonym mat = "nat \<Rightarrow> nat \<Rightarrow> real"

fun add3 :: "vec3 \<Rightarrow> vec3 \<Rightarrow> vec3" where
  "add3 (a1, a2, a3) (b1, b2, b3) = (a1 + b1, a2 + b2, a3 + b3)"

fun sub3 :: "vec3 \<Rightarrow> vec3 \<Rightarrow> vec3" where
  "sub3 (a1, a2, a3) (b1, b2, b3) = (a1 - b1, a2 - b2, a3 - b3)"

fun scale3 :: "real \<Rightarrow> vec3 \<Rightarrow> vec3" where
  "scale3 s (a1, a2, a3) = (s * a1, s * a2, s * a3)"

fun cross :: "vec3 \<Rightarrow> vec3 \<Rightarrow> vec3" where
  "cross (a1, a2, a3) (b1, b2, b3) =
     (a2 * b3 - a3 * b2, a3 * b1 - a1 * b3, a1 * b2 - a2 * b1)"

fun squaredNorm :: "vec3 \<Rightarrow> real" where
  "squaredNorm (a1, a2, a3) = a1 * a1 + a2 * a2 + a3 * a3"

fun x3 :: "vec3 \<Rightarrow> real" where "x3 (a1, a2, a3) = a1"
fun y3 :: "vec3 \<Rightarrow> real" where "y3 (a1, a2, a3) = a2"
fun z3 :: "vec3 \<Rightarrow> real" where "z3 (a1, a2, a3) = a3"

fun add2 :: "vec2 \<Rightarrow> vec2 \<Rightarrow> vec2" where
  "add2 (a1, a2) (b1, b2) = (a1 + b1, a2 + b2)"

fun sub2 :: "vec2 \<Rightarrow> vec2 \<Rightarrow> vec2" where
  "sub2 (a1, a2) (b1, b2) = (a1 - b1, a2 - b2)"

fun scale2 :: "real \<Rightarrow> vec2 \<Rightarrow> vec2" where
  "scale2 s (a1, a2) = (s * a1, s * a2)"

text \<open>\<open>v6 << a, b\<close>: the comma initialiser that stacks two 3-vectors.\<close>

fun stack6 :: "vec3 \<Rightarrow> vec3 \<Rightarrow> vec6" where
  "stack6 (a1, a2, a3) (b1, b2, b3) =
     (\<lambda>i. if i = 0 then a1 else if i = 1 then a2 else if i = 2 then a3
          else if i = 3 then b1 else if i = 4 then b2 else if i = 5 then b3 else 0)"

definition mat_zero :: mat where
  "mat_zero = (\<lambda>i j. 0)"

definition mat_identity :: mat where
  "mat_identity = (\<lambda>i j. if i = j then 1 else 0)"

definition mat_add :: "mat \<Rightarrow> mat \<Rightarrow> mat" where
  "mat_add A B = (\<lambda>i j. A i j + B i j)"

definition mat_sub :: "mat \<Rightarrow> mat \<Rightarrow> mat" where
  "mat_sub A B = (\<lambda>i j. A i j - B i j)"

definition mat_scale :: "real \<Rightarrow> mat \<Rightarrow> mat" where
  "mat_scale s A = (\<lambda>i j. s * A i j)"

definition mat_transpose :: "mat \<Rightarrow> mat" where
  "mat_transpose A = (\<lambda>i j. A j i)"

text \<open>The product of two 3x3 matrices.\<close>

definition mat_mult3 :: "mat \<Rightarrow> mat \<Rightarrow> mat" where
  "mat_mult3 A B = (\<lambda>i j. A i 0 * B 0 j + A i 1 * B 1 j + A i 2 * B 2 j)"

text \<open>
  \<open>M.block(r, c, h, w)\<close> read as a value: the \<open>h\<close> by \<open>w\<close> matrix whose entry \<open>(i, j)\<close> is
  \<open>M (r + i) (c + j)\<close>. Assigning to a block overwrites exactly its entries.
\<close>

definition block :: "mat \<Rightarrow> nat \<Rightarrow> nat \<Rightarrow> nat \<Rightarrow> nat \<Rightarrow> mat" where
  "block M r c h w = (\<lambda>i j. if i < h \<and> j < w then M (r + i) (c + j) else 0)"

definition set_block :: "mat \<Rightarrow> nat \<Rightarrow> nat \<Rightarrow> nat \<Rightarrow> nat \<Rightarrow> mat \<Rightarrow> mat" where
  "set_block M r c h w B =
     (\<lambda>i j. if r \<le> i \<and> i < r + h \<and> c \<le> j \<and> j < c + w then B (i - r) (j - c) else M i j)"

text \<open>
  Unit quaternions as Eigen stores them (\<open>MTK::SO3\<close> derives from \<open>Eigen::Quaternion\<close>).
  \<open>quat_rotate\<close> is \<open>q * v\<close> (Eigen's \<open>_transformVector\<close>), \<open>quat_inverse\<close> is \<open>q.inverse()\<close>
  and \<open>quat_matrix\<close> is \<open>q.matrix()\<close>, the rotation matrix.
\<close>

datatype quaternion = Quaternion (qw: real) (qx: real) (qy: real) (qz: real)

definition quat_vec :: "quaternion \<Rightarrow> vec3" where
  "quat_vec q = (qx q, qy q, qz q)"

definition quat_rotate :: "quaternion \<Rightarrow> vec3 \<Rightarrow> vec3" where
  "quat_rotate q v =
     (let uv = cross (quat_vec q) v;
          uv2 = add3 uv uv
      in add3 (add3 v (scale3 (qw q) uv2)) (cross (quat_vec q) uv2))"

definition quat_inverse :: "quaternion \<Rightarrow> quaternion" where
  "quat_inverse q =
     (let n2 = qw q * qw q + qx q * qx q + qy q * qy q + qz q * qz q
      in if n2 > 0 then Quaternion (qw q / n2) (- qx q / n2) (- qy q / n2) (- qz q / n2)
         else Quaternion 0 0 0 0)"

definition quat_matrix :: "quaternion \<Rightarrow> mat" where
  "quat_matrix q =
     (let tx = 2 * qx q; ty = 2 * qy q; tz = 2 * qz q;
          twx = tx * qw q; twy = ty * qw q; twz = tz * qw q;
          txx = tx * qx q; txy = ty * qx q; txz = tz * qx q;
          tyy = ty * qy q; tyz = tz * qy q; tzz = tz * qz q
      in (\<lambda>i j.
            if i = 0 \<and> j = 0 then 1 - (tyy + tzz)
            else if i = 0 \<and> j = 1 then txy - twz
            else if i = 0 \<and> j = 2 then txz + twy
            else if i = 1 \<and> j = 0 then txy + twz
            else if i = 1 \<and> j = 1 then 1 - (txx + tzz)
            else if i = 1 \<and> j = 2 then tyz - twx
            else if i = 2 \<and> j = 0 then txz - twy
            else if i = 2 \<and> j = 1 then tyz + twx
            else if i = 2 \<and> j = 2 then 1 - (txx + tyy)
            else 0))"

section \<open>The state manifold\<close>

text \<open>
  Modelled from the spec: \<open>PoseState.hpp\<close> (the \<open>MTK_BUILD_MANIFOLD\<close> declaration of
  \<open>PoseState\<close>) is not among the sources. The fields, their order and their tangent
  dimensions are those of the table in section 3.1 of the specification; they agree with
  how the source uses each field (3-vectors for position, velocity, acceleration and the
  two IMU biases, 3x3 blocks for inertia and damping, 2-vectors for the water-velocity
  fields and scalars for gravity and density).
\<close>

record PoseState =
  position :: vec3
  orientation :: quaternion
  velocity :: vec3
  acceleration :: vec3
  bias_gyro :: vec3
  bias_acc :: vec3
  gravity :: real
  inertia :: mat
  lin_damping :: mat
  quad_damping :: mat
  water_velocity :: vec2
  water_velocity_below :: vec2
  bias_adcp :: vec2
  water_density :: real

datatype field =
    F_position | F_orientation | F_velocity | F_acceleration | F_bias_gyro | F_bias_acc
  | F_gravity | F_inertia | F_lin_damping | F_quad_damping | F_water_velocity
  | F_water_velocity_below | F_bias_adcp | F_water_density

fun field_DOF :: "field \<Rightarrow> nat" where
  "field_DOF F_position = 3"
| "field_DOF F_orientation = 3"
| "field_DOF F_velocity = 3"
| "field_DOF F_acceleration = 3"
| "field_DOF F_bias_gyro = 3"
| "field_DOF F_bias_acc = 3"
| "field_DOF F_gravity = 1"
| "field_DOF F_inertia = 9"
| "field_DOF F_lin_damping = 9"
| "field_DOF F_quad_damping = 9"
| "field_DOF F_water_velocity = 2"
| "field_DOF F_water_velocity_below = 2"
| "field_DOF F_bias_adcp = 2"
| "field_DOF F_water_density = 1"

definition manifold_fields :: "field list" where
  "manifold_fields =
     [F_position, F_orientation, F_velocity, F_acceleration, F_bias_gyro, F_bias_acc,
      F_gravity, F_inertia, F_lin_damping, F_quad_damping, F_water_velocity,
      F_water_velocity_below, F_bias_adcp, F_water_density]"

text \<open>
  The index of a field's block in a tangent vector or covariance (\<open>MTK\<close> lays the
  sub-manifolds out in declaration order), and the dimension of the whole manifold.
\<close>

definition field_idx :: "field \<Rightarrow> nat" where
  "field_idx f = sum_list (map field_DOF (takeWhile (\<lambda>g. g \<noteq> f) manifold_fields))"

definition PoseState_DOF :: nat where
  "PoseState_DOF = sum_list (map field_DOF manifold_fields)"

text \<open>
  Modelled from the spec: \<open>boxplus(vec, scale)\<close> of the Euclidean \<open>MTK\<close> types (not among the
  sources) adds the scaled tangent vector (section 4.1: for Euclidean fields boxplus is
  \<open>+\<close>). A matrix-valued field is flattened by \<open>data()\<close> for the arithmetic and keeps its
  entries' positions, so the operation is entrywise.
\<close>

definition boxplus3 :: "vec3 \<Rightarrow> vec3 \<Rightarrow> real \<Rightarrow> vec3" where
  "boxplus3 p v scale = add3 p (scale3 scale v)"

definition boxplus2 :: "vec2 \<Rightarrow> vec2 \<Rightarrow> real \<Rightarrow> vec2" where
  "boxplus2 p v scale = add2 p (scale2 scale v)"

definition boxplus1 :: "real \<Rightarrow> real \<Rightarrow> real \<Rightarrow> real" where
  "boxplus1 p v scale = p + scale * v"

definition boxplus_mat :: "mat \<Rightarrow> mat \<Rightarrow> real \<Rightarrow> mat" where
  "boxplus_mat p v scale = mat_add p (mat_scale scale v)"

section \<open>Configuration and external collaborators\<close>

text \<open>\<open>PoseUKF::PoseUKFParameter\<close>, as the header declares it.\<close>

record PoseUKFParameter =
  imu_in_body :: vec3
  gyro_bias_offset :: vec3
  gyro_bias_tau :: real
  acc_bias_offset :: vec3
  acc_bias_tau :: real
  inertia_tau :: real
  lin_damping_tau :: real
  quad_damping_tau :: real
  water_velocity_tau :: real
  water_velocity_limits :: real
  water_velocity_scale :: real
  adcp_bias_tau :: real
  atmospheric_pressure :: real
  water_density_tau :: real

text \<open>
  Modelled from the spec: \<open>LocationConfiguration\<close> and \<open>CameraConfiguration\<close> are declared in
  \<open>PoseUKFConfig.hpp\<close>, which is not among the sources; the fields are the ones the source
  reads (section 6.1).
\<close>

record LocationConfiguration =
  latitude :: real
  longitude :: real

record CameraConfiguration =
  fx :: real
  fy :: real
  cx :: real
  cy :: real

text \<open>
  Modelled from the spec: \<open>uwv_dynamic_model::UWVParameters\<close> is declared outside the
  sources; section 6.1 gives it an inertia matrix and two damping matrices, each 6x6. The
  pair holds \<open>damping_matrices[0]\<close> and \<open>damping_matrices[1]\<close>.
\<close>

record UWVParameters =
  inertia_matrix :: mat
  damping_matrices :: "mat \<times> mat"

text \<open>\<open>Eigen::Affine3d\<close>: a linear part and a translation.\<close>

record affine3 =
  linear_part :: mat
  translation :: vec3

text \<open>A name argument of \<open>predict_efforts\<close>: a \<open>std::string\<close>.\<close>

type_synonym f_name = string

text \<open>
  The functions of the external libraries that the source calls and whose results the
  properties below do not depend on are parameters of the model: the geographic
  projection (constructed from a location), the boxplus of \<open>MTK::SO3\<close>, the conversion of
  an affine transform's rotation into \<open>MTK::SO3\<close>, the constructor of \<open>MTK::S2\<close>, the inverse of an affine
  transform, the hydrodynamic model's \<open>calcEfforts\<close> (which reads the model's current
  parameters) and the regression model's \<open>predict_efforts\<close> with its ten name arguments.
\<close>

record collaborators =
  navToWorld :: "LocationConfiguration \<Rightarrow> real \<Rightarrow> real \<Rightarrow> real \<times> real"
  worldToNav :: "LocationConfiguration \<Rightarrow> real \<Rightarrow> real \<Rightarrow> real \<times> real"
  boxplus_SO3 :: "quaternion \<Rightarrow> vec3 \<Rightarrow> real \<Rightarrow> quaternion"
  SO3_of_rotation :: "affine3 \<Rightarrow> quaternion"
  S2_of :: "vec3 \<Rightarrow> vec3"
  affine_inverse :: "affine3 \<Rightarrow> affine3"
  calcEfforts :: "UWVParameters \<Rightarrow> vec6 \<Rightarrow> vec6 \<Rightarrow> quaternion \<Rightarrow> vec6"
  predict_efforts :: "real list \<Rightarrow> f_name \<Rightarrow> f_name \<Rightarrow> f_name \<Rightarrow> f_name \<Rightarrow> f_name
                        \<Rightarrow> f_name \<Rightarrow> f_name \<Rightarrow> f_name \<Rightarrow> f_name \<Rightarrow> f_name \<Rightarrow> real list"

text \<open>
  Modelled from the spec: \<open>pose_estimation::EARTHW\<close>, the earth's rotation rate in rad/s
  (section 4.3), is declared outside the sources.
\<close>

definition EARTHW :: real where
  "EARTHW = 7.292115 / 10 ^ 5"

section \<open>The process model\<close>

text \<open>
  \<open>processModel\<close>, statement by statement. Every update reads the incoming \<open>state\<close> and
  writes one field of the copy \<open>new_state\<close>.
\<close>

definition earth_rotation :: "real \<Rightarrow> vec3" where
  "earth_rotation lat = (EARTHW * cos lat, 0, EARTHW * sin lat)"

definition processModel ::
  "collaborators \<Rightarrow> PoseState \<Rightarrow> vec3 \<Rightarrow> LocationConfiguration \<Rightarrow> mat \<Rightarrow> mat \<Rightarrow> mat \<Rightarrow> real
     \<Rightarrow> PoseUKFParameter \<Rightarrow> real \<Rightarrow> PoseState" where
  "processModel ext state rotation_rate projection inertia_offset lin_damping_offset
       quad_damping_offset water_density_offset filter_parameter delta_time =
     (let (lat, lon) = navToWorld ext projection (x3 (position state)) (y3 (position state));
          angular_velocity =
            sub3 (quat_rotate (orientation state) (sub3 rotation_rate (bias_gyro state)))
                 (earth_rotation lat);
          gyro_bias_delta =
            scale3 (- 1 / gyro_bias_tau filter_parameter)
                   (sub3 (bias_gyro state) (gyro_bias_offset filter_parameter));
          acc_bias_delta =
            scale3 (- 1 / acc_bias_tau filter_parameter)
                   (sub3 (bias_acc state) (acc_bias_offset filter_parameter));
          inertia_delta =
            mat_scale (- 1 / inertia_tau filter_parameter)
                      (mat_sub (inertia state) inertia_offset);
          lin_damping_delta =
            mat_scale (- 1 / lin_damping_tau filter_parameter)
                      (mat_sub (lin_damping state) lin_damping_offset);
          quad_damping_delta =
            mat_scale (- 1 / quad_damping_tau filter_parameter)
                      (mat_sub (quad_damping state) quad_damping_offset);
          water_velocity_delta =
            scale2 (- 1 / water_velocity_tau filter_parameter) (water_velocity state);
          water_velocity_below_delta =
            scale2 (- 1 / water_velocity_tau filter_parameter) (water_velocity_below state);
          bias_adcp_delta =
            scale2 (- 1 / adcp_bias_tau filter_parameter) (bias_adcp state);
          water_density_delta =
            (- 1 / water_density_tau filter_parameter)
              * (water_density state - water_density_offset)
      in state
           \<lparr> position := boxplus3 (position state) (velocity state) delta_time,
             orientation := boxplus_SO3 ext (orientation state) angular_velocity delta_time,
             velocity := boxplus3 (velocity state) (acceleration state) delta_time,
             bias_gyro := boxplus3 (bias_gyro state) gyro_bias_delta delta_time,
             bias_acc := boxplus3 (bias_acc state) acc_bias_delta delta_time,
             inertia := boxplus_mat (inertia state) inertia_delta delta_time,
             lin_damping := boxplus_mat (lin_damping state) lin_damping_delta delta_time,
             quad_damping := boxplus_mat (quad_damping state) quad_damping_delta delta_time,
             water_velocity := boxplus2 (water_velocity state) water_velocity_delta delta_time,
             water_velocity_below :=
               boxplus2 (water_velocity_below state) water_velocity_below_delta delta_time,
             bias_adcp := boxplus2 (bias_adcp state) bias_adcp_delta delta_time,
             water_density := boxplus1 (water_density state) water_density_delta delta_time \<rparr>)"

section \<open>The measurement models\<close>

definition measurementXYPosition :: "PoseState \<Rightarrow> vec2" where
  "measurementXYPosition state = (x3 (position state), y3 (position state))"

definition measurementZPosition :: "PoseState \<Rightarrow> real" where
  "measurementZPosition state = z3 (position state)"

definition measurementPressureSensor :: "PoseState \<Rightarrow> vec3 \<Rightarrow> real \<Rightarrow> real" where
  "measurementPressureSensor state pressure_sensor_in_imu atmospheric_pressure' =
     (let pressure_sensor_in_nav =
            add3 (position state) (quat_rotate (orientation state) pressure_sensor_in_imu)
      in atmospheric_pressure' - z3 pressure_sensor_in_nav * gravity state * water_density state)"

definition measurementVelocity :: "PoseState \<Rightarrow> vec3" where
  "measurementVelocity state = quat_rotate (quat_inverse (orientation state)) (velocity state)"

definition measurementAcceleration :: "PoseState \<Rightarrow> vec3" where
  "measurementAcceleration state =
     add3 (quat_rotate (quat_inverse (orientation state))
                  (add3 (acceleration state) (0, 0, gravity state)))
          (bias_acc state)"

definition measurementWaterCurrents :: "PoseState \<Rightarrow> real \<Rightarrow> vec2" where
  "measurementWaterCurrents state cell_weighting =
     (let water_velocity_below' =
            quat_rotate (quat_inverse (orientation state))
              (sub3 (velocity state)
                    (fst (water_velocity_below state), snd (water_velocity_below state), 0));
          water_velocity' =
            quat_rotate (quat_inverse (orientation state))
              (sub3 (velocity state) (fst (water_velocity state), snd (water_velocity state), 0))
      in (cell_weighting * x3 water_velocity_below' + (1 - cell_weighting) * x3 water_velocity'
            + fst (bias_adcp state),
          cell_weighting * y3 water_velocity_below' + (1 - cell_weighting) * y3 water_velocity'
            + snd (bias_adcp state)))"

text \<open>
  Accesses to dynamically sized containers (\<open>std::vector\<close>, \<open>Eigen::VectorXd\<close>) are checked:
  an index at or beyond the size is the error \<open>OutOfBounds\<close> (the C++ is undefined there).
\<close>

datatype error = OutOfBounds | BadMeasurement

definition vector_at :: "'a list \<Rightarrow> nat \<Rightarrow> 'a option" where
  "vector_at xs i = (if i < length xs then Some (xs ! i) else None)"

definition coeff_write :: "real list \<Rightarrow> nat \<Rightarrow> real \<Rightarrow> real list option" where
  "coeff_write xs i v = (if i < length xs then Some (xs[i := v]) else None)"

text \<open>\<open>base::VectorXd X;\<close> the default constructor gives a vector of size zero.\<close>

definition VectorXd_default :: "real list" where
  "VectorXd_default = []"

text \<open>
  The first block of \<open>measurementEfforts\<close>: the model's parameters are fetched, twelve
  blocks are overwritten from the state, and the result is stored back in the shared
  model by \<open>setUWVParameters\<close>.
\<close>

definition overwrite_blocks :: "mat \<Rightarrow> mat \<Rightarrow> mat" where
  "overwrite_blocks M S =
     (let M1 = set_block M 0 0 2 2 (block S 0 0 2 2);
          M2 = set_block M1 0 5 2 1 (block S 0 2 2 1);
          M3 = set_block M2 5 0 1 2 (block S 2 0 1 2)
      in set_block M3 5 5 1 1 (block S 2 2 1 1))"

definition set_damping_parameters :: "PoseState \<Rightarrow> UWVParameters \<Rightarrow> UWVParameters" where
  "set_damping_parameters state params =
     params
       \<lparr> inertia_matrix := overwrite_blocks (inertia_matrix params) (inertia state),
         damping_matrices :=
           (overwrite_blocks (fst (damping_matrices params)) (lin_damping state),
            overwrite_blocks (snd (damping_matrices params)) (quad_damping state)) \<rparr>"

text \<open>The writes \<open>X[0] = ...\<close> to \<open>X[5] = ...\<close> on the default-constructed vector.\<close>

definition build_X :: "vec6 \<Rightarrow> vec6 \<Rightarrow> real list option" where
  "build_X velocity_6d acceleration_6d =
     Option.bind (coeff_write VectorXd_default 0 (velocity_6d 0)) (\<lambda>X0.
     Option.bind (coeff_write X0 1 (velocity_6d 1)) (\<lambda>X1.
     Option.bind (coeff_write X1 2 (velocity_6d 5)) (\<lambda>X2.
     Option.bind (coeff_write X2 3 (acceleration_6d 0)) (\<lambda>X3.
     Option.bind (coeff_write X3 4 (acceleration_6d 1)) (\<lambda>X4.
     coeff_write X4 5 (acceleration_6d 5))))))"

text \<open>
  \<open>std::string f_names [10];\<close> followed by the ten assignments, in the order of the
  source. The array starts with ten empty strings; every index is a constant below 10.
\<close>

definition f_names :: "f_name list" where
  "f_names =
     (((((((((((replicate 10 [])
       [0 := ''scaler_params''])
       [1 := ''params_x''])
       [2 := ''params_y''])
       [3 := ''params_yaw''])
       [4 := ''fitout_X''])
       [4 := ''fitout_y''])
       [6 := ''fitout_yaw''])
       [7 := ''s_x''])
       [8 := ''s_y''])
       [9 := ''s_yaw''])"

definition call_predict_efforts :: "collaborators \<Rightarrow> real list \<Rightarrow> real list" where
  "call_predict_efforts ext X =
     predict_efforts ext X (f_names ! 0) (f_names ! 1) (f_names ! 2) (f_names ! 3) (f_names ! 4)
       (f_names ! 5) (f_names ! 6) (f_names ! 7) (f_names ! 8) (f_names ! 9)"

text \<open>
  \<open>measurementEfforts\<close>. The shared hydrodynamic model is passed in and returned: the
  first component of the result is the model's parameters after the call, the second the
  efforts or the error.
\<close>

definition measurementEfforts ::
  "collaborators \<Rightarrow> PoseState \<Rightarrow> UWVParameters \<Rightarrow> vec3 \<Rightarrow> vec3
     \<Rightarrow> UWVParameters \<times> (error + vec6)" where
  "measurementEfforts ext state dynamic_model' imu_in_body' rotation_rate_body =
     (let params = set_damping_parameters state dynamic_model';
          water_velocity' = (fst (water_velocity state), snd (water_velocity state), 0);
          velocity_body =
            sub3 (quat_rotate (quat_inverse (orientation state)) (velocity state))
                 (cross rotation_rate_body imu_in_body');
          velocity_body' =
            sub3 velocity_body (quat_rotate (quat_inverse (orientation state)) water_velocity');
          velocity_6d = stack6 velocity_body' rotation_rate_body;
          acceleration_body =
            sub3 (quat_rotate (quat_inverse (orientation state)) (acceleration state))
                 (cross rotation_rate_body (cross rotation_rate_body imu_in_body'));
          acceleration_6d = stack6 acceleration_body (0, 0, 0)
      in (params,
          case build_X velocity_6d acceleration_6d of
            None \<Rightarrow> Inl OutOfBounds
          | Some X \<Rightarrow>
              (let efforts_sklearn = call_predict_efforts ext X;
                   efforts = calcEfforts ext params acceleration_6d velocity_6d (orientation state)
               in case (vector_at efforts_sklearn 0, vector_at efforts_sklearn 1,
                        vector_at efforts_sklearn 2) of
                    (Some e0, Some e1, Some e2) \<Rightarrow> Inr (efforts(0 := e0, 1 := e1, 5 := e2))
                  | _ \<Rightarrow> Inl OutOfBounds)))"

definition constrainVelocity ::
  "collaborators \<Rightarrow> PoseState \<Rightarrow> UWVParameters \<Rightarrow> vec3 \<Rightarrow> vec3 \<Rightarrow> vec3 \<Rightarrow> quaternion \<Rightarrow> vec3
     \<Rightarrow> vec6" where
  "constrainVelocity ext state dynamic_model' imu_in_body' rotation_rate_body water_velocity'
       orientation' acceleration_body =
     (let velocity_body =
            sub3 (quat_rotate (quat_inverse orientation') (velocity state))
                 (cross rotation_rate_body imu_in_body');
          velocity_body' =
            sub3 velocity_body (quat_rotate (quat_inverse orientation') water_velocity');
          velocity_6d = stack6 velocity_body' rotation_rate_body;
          acceleration_6d = stack6 acceleration_body (0, 0, 0)
      in calcEfforts ext dynamic_model' acceleration_6d velocity_6d orientation')"

text \<open>The filter state augmented with a marker pose, and the landmark measurement.\<close>

record PoseStateWithMarker =
  filter_state :: PoseState
  marker_position :: vec3
  marker_orientation :: quaternion

definition mat_vec3 :: "mat \<Rightarrow> vec3 \<Rightarrow> vec3" where
  "mat_vec3 A v =
     (A 0 0 * x3 v + A 0 1 * y3 v + A 0 2 * z3 v,
      A 1 0 * x3 v + A 1 1 * y3 v + A 1 2 * z3 v,
      A 2 0 * x3 v + A 2 1 * y3 v + A 2 2 * z3 v)"

definition affine_mult :: "affine3 \<Rightarrow> affine3 \<Rightarrow> affine3" where
  "affine_mult A B =
     \<lparr> linear_part = mat_mult3 (linear_part A) (linear_part B),
       translation = add3 (mat_vec3 (linear_part A) (translation B)) (translation A) \<rparr>"

definition affine_apply :: "affine3 \<Rightarrow> vec3 \<Rightarrow> vec3" where
  "affine_apply A v = add3 (mat_vec3 (linear_part A) v) (translation A)"

definition measurementVisualLandmark ::
  "collaborators \<Rightarrow> PoseStateWithMarker \<Rightarrow> vec3 \<Rightarrow> affine3 \<Rightarrow> vec3" where
  "measurementVisualLandmark ext state feature_pos cam_in_imu =
     (let imu_in_nav =
            \<lparr> linear_part = quat_matrix (orientation (filter_state state)),
              translation = position (filter_state state) \<rparr>;
          nav_in_cam = affine_inverse ext (affine_mult imu_in_nav cam_in_imu);
          feature_in_cam =
            affine_apply nav_in_cam
              (add3 (quat_rotate (marker_orientation state) feature_pos) (marker_position state))
      in S2_of ext feature_in_cam)"

section \<open>Innovation gates\<close>

definition d2p99 :: "real \<Rightarrow> bool" where
  "d2p99 mahalanobis2' = (if mahalanobis2' > 9.21 then False else True)"

definition d2p95 :: "real \<Rightarrow> bool" where
  "d2p95 mahalanobis2' = (if mahalanobis2' > 5.991 then False else True)"

text \<open>
  Modelled from the spec: \<open>ukfom::accept_any_mahalanobis_distance\<close> is not among the
  sources; by section 4.6 it accepts unconditionally.
\<close>

definition accept_any_mahalanobis_distance :: "real \<Rightarrow> bool" where
  "accept_any_mahalanobis_distance mahalanobis2' = True"

section \<open>The filter engine\<close>

text \<open>
  A measurement sample (the \<open>MEASUREMENT\<close> macro: a mean and a covariance) and the state of
  a \<open>ukfom::ukf\<close>: its mean and covariance.
\<close>

record 'z measurement =
  mu :: 'z
  cov :: mat

record 's ukf =
  ukf_mu :: 's
  ukf_sigma :: mat

text \<open>
  Modelled from the spec: \<open>ukfom::ukf\<close> (its \<open>predict\<close> and \<open>update\<close>) is not among the
  sources. Section 4.2 fixes the control flow: the sigma points are generated from the
  mean and covariance and mapped through the process or measurement function; an update
  computes the squared Mahalanobis distance of the innovation, asks the gate, and either
  leaves the filter as it is (rejection) or replaces mean and covariance by the
  posterior. The numerical steps (sigma-point generation, recombination, distance and
  posterior) are the fields of \<open>engine\<close>.
\<close>

record ('s, 'z) engine =
  sigma_points :: "'s ukf \<Rightarrow> 's list"
  recombine :: "'s ukf \<Rightarrow> 's list \<Rightarrow> mat \<Rightarrow> 's ukf"
  mahalanobis2 :: "'s ukf \<Rightarrow> 's list \<Rightarrow> 'z list \<Rightarrow> 'z \<Rightarrow> mat \<Rightarrow> real"
  posterior :: "'s ukf \<Rightarrow> 's list \<Rightarrow> 'z list \<Rightarrow> 'z \<Rightarrow> mat \<Rightarrow> 's ukf"

definition ukfom_predict :: "('s, 'z) engine \<Rightarrow> ('s \<Rightarrow> 's) \<Rightarrow> mat \<Rightarrow> 's ukf \<Rightarrow> 's ukf" where
  "ukfom_predict eng f Q flt = recombine eng flt (map f (sigma_points eng flt)) Q"

definition ukfom_update ::
  "('s, 'z) engine \<Rightarrow> 'z \<Rightarrow> ('s \<Rightarrow> 'z) \<Rightarrow> mat \<Rightarrow> (real \<Rightarrow> bool) \<Rightarrow> 's ukf \<Rightarrow> 's ukf" where
  "ukfom_update eng z h R gate flt =
     (let X = sigma_points eng flt;
          Z = map h X
      in if gate (mahalanobis2 eng flt X Z z R) then posterior eng flt X Z z R else flt)"

text \<open>
  The same update for a measurement function that works on the shared hydrodynamic
  model: the model is threaded through the evaluations at the sigma points, and the
  first failing evaluation ends the update.
\<close>

fun eval_sigma ::
  "('s \<Rightarrow> 'm \<Rightarrow> 'm \<times> (error + 'z)) \<Rightarrow> 's list \<Rightarrow> 'm \<Rightarrow> 'm \<times> (error + 'z list)" where
  "eval_sigma h [] m = (m, Inr [])"
| "eval_sigma h (s # ss) m =
     (case h s m of
        (m', Inl e) \<Rightarrow> (m', Inl e)
      | (m', Inr z) \<Rightarrow>
          (case eval_sigma h ss m' of
             (m'', Inl e) \<Rightarrow> (m'', Inl e)
           | (m'', Inr zs) \<Rightarrow> (m'', Inr (z # zs))))"

definition ukfom_update_shared ::
  "('s, 'z) engine \<Rightarrow> 'z \<Rightarrow> ('s \<Rightarrow> 'm \<Rightarrow> 'm \<times> (error + 'z)) \<Rightarrow> mat \<Rightarrow> (real \<Rightarrow> bool)
     \<Rightarrow> 's ukf \<Rightarrow> 'm \<Rightarrow> 'm \<times> (error + 's ukf)" where
  "ukfom_update_shared eng z h R gate flt m =
     (let X = sigma_points eng flt
      in case eval_sigma h X m of
           (m', Inl e) \<Rightarrow> (m', Inl e)
         | (m', Inr Z) \<Rightarrow>
             (m', Inr (if gate (mahalanobis2 eng flt X Z z R) then posterior eng flt X Z z R
                       else flt)))"

section \<open>The pose filter\<close>

text \<open>
  The members of \<open>PoseUKF\<close>. \<open>ukf\<close> and \<open>process_noise_cov\<close> are members of the base class;
  \<open>projection\<close> holds the location the geographic projection was constructed from.
\<close>

record PoseUKF =
  ukf :: "PoseState ukf"
  process_noise_cov :: mat
  dynamic_model :: UWVParameters
  projection :: LocationConfiguration
  rotation_rate :: vec3
  filter_parameter :: PoseUKFParameter
  inertia_offset :: mat
  lin_damping_offset :: mat
  quad_damping_offset :: mat
  water_density_offset :: real

text \<open>
  The constructor. \<open>initializeFilter\<close> belongs to the base class; it creates the filter
  from the initial state and covariance. Modelled from the spec: the process noise \<open>Q\<close> is
  provided at construction (section 4.3).
\<close>

definition PoseUKF_init ::
  "PoseState \<Rightarrow> mat \<Rightarrow> LocationConfiguration \<Rightarrow> UWVParameters \<Rightarrow> PoseUKFParameter \<Rightarrow> mat
     \<Rightarrow> PoseUKF" where
  "PoseUKF_init initial_state state_cov location model_parameters filter_parameter' Q =
     \<lparr> ukf = \<lparr> ukf_mu = initial_state, ukf_sigma = state_cov \<rparr>,
       process_noise_cov = Q,
       dynamic_model = model_parameters,
       projection = location,
       rotation_rate = (0, 0, 0),
       filter_parameter = filter_parameter',
       inertia_offset = inertia initial_state,
       lin_damping_offset = lin_damping initial_state,
       quad_damping_offset = quad_damping initial_state,
       water_density_offset = water_density initial_state \<rparr>"

text \<open>\<open>MTK::subblock(cov, &State::field)\<close>: the diagonal block of a field.\<close>

definition subblock :: "mat \<Rightarrow> field \<Rightarrow> mat" where
  "subblock M f = block M (field_idx f) (field_idx f) (field_DOF f) (field_DOF f)"

definition set_subblock :: "mat \<Rightarrow> field \<Rightarrow> mat \<Rightarrow> mat" where
  "set_subblock M f B = set_block M (field_idx f) (field_idx f) (field_DOF f) (field_DOF f) B"

text \<open>
  \<open>predictionStepImpl\<close>: the local \<open>process_noise\<close> as it is handed to \<open>predict\<close>, and the
  prediction itself.
\<close>

definition process_noise :: "PoseUKF \<Rightarrow> real \<Rightarrow> mat" where
  "process_noise obj delta_t =
     (let rot = quat_matrix (orientation (ukf_mu (ukf obj)));
          pn0 = process_noise_cov obj;
          pn1 = set_subblock pn0 F_orientation
                  (mat_mult3 (mat_mult3 rot (subblock (process_noise_cov obj) F_orientation))
                             (mat_transpose rot));
          v = velocity (ukf_mu (ukf obj));
          scaled_velocity = (x3 v, y3 v, 10 * z3 v);
          extra = (\<lambda>i j. mat_identity i j * water_velocity_scale (filter_parameter obj)
                            * squaredNorm scaled_velocity * delta_t);
          pn2 = set_subblock pn1 F_water_velocity
                  (mat_add (subblock (process_noise_cov obj) F_water_velocity) extra);
          pn3 = set_subblock pn2 F_water_velocity_below
                  (mat_add (subblock (process_noise_cov obj) F_water_velocity_below) extra)
      in mat_scale (delta_t ^ 2) pn3)"

definition predictionStepImpl ::
  "collaborators \<Rightarrow> (PoseState, 'z) engine \<Rightarrow> PoseUKF \<Rightarrow> real \<Rightarrow> PoseUKF" where
  "predictionStepImpl ext eng obj delta_t =
     obj \<lparr> ukf :=
             ukfom_predict eng
               (\<lambda>s. processModel ext s (rotation_rate obj) (projection obj) (inertia_offset obj)
                      (lin_damping_offset obj) (quad_damping_offset obj)
                      (water_density_offset obj) (filter_parameter obj) delta_t)
               (process_noise obj delta_t) (ukf obj) \<rparr>"

definition getRotationRate :: "collaborators \<Rightarrow> PoseUKF \<Rightarrow> vec3" where
  "getRotationRate ext obj =
     (let m = ukf_mu (ukf obj);
          (lat, lon) = navToWorld ext (projection obj) (x3 (position m)) (y3 (position m))
      in sub3 (sub3 (rotation_rate obj) (bias_gyro m))
              (quat_rotate (quat_inverse (orientation m)) (earth_rotation lat)))"

section \<open>Integrating measurements\<close>

text \<open>
  One definition per overload of \<open>integrateMeasurement\<close>. \<open>checkMeasurment\<close> is a member of
  the base class and not among the sources; it is a parameter here, and a sample it
  refuses ends the call with \<open>BadMeasurement\<close> before the filter is touched.
\<close>

definition integrateMeasurement_Velocity ::
  "(vec3 \<Rightarrow> mat \<Rightarrow> bool) \<Rightarrow> (PoseState, vec3) engine \<Rightarrow> PoseUKF \<Rightarrow> vec3 measurement
     \<Rightarrow> error + PoseUKF" where
  "integrateMeasurement_Velocity checkMeasurment eng obj velocity' =
     (if \<not> checkMeasurment (mu velocity') (cov velocity') then Inl BadMeasurement
      else Inr (obj \<lparr> ukf := ukfom_update eng (mu velocity') measurementVelocity (cov velocity')
                                accept_any_mahalanobis_distance (ukf obj) \<rparr>))"

definition integrateMeasurement_Acceleration ::
  "(vec3 \<Rightarrow> mat \<Rightarrow> bool) \<Rightarrow> (PoseState, vec3) engine \<Rightarrow> PoseUKF \<Rightarrow> vec3 measurement
     \<Rightarrow> error + PoseUKF" where
  "integrateMeasurement_Acceleration checkMeasurment eng obj acceleration' =
     (if \<not> checkMeasurment (mu acceleration') (cov acceleration') then Inl BadMeasurement
      else Inr (obj \<lparr> ukf := ukfom_update eng (mu acceleration') measurementAcceleration
                                (cov acceleration') accept_any_mahalanobis_distance (ukf obj) \<rparr>))"

definition integrateMeasurement_RotationRate ::
  "(vec3 \<Rightarrow> mat \<Rightarrow> bool) \<Rightarrow> PoseUKF \<Rightarrow> vec3 measurement \<Rightarrow> error + PoseUKF" where
  "integrateMeasurement_RotationRate checkMeasurment obj rotation_rate' =
     (if \<not> checkMeasurment (mu rotation_rate') (cov rotation_rate') then Inl BadMeasurement
      else Inr (obj \<lparr> rotation_rate := mu rotation_rate' \<rparr>))"

definition integrateMeasurement_Z_Position ::
  "(real \<Rightarrow> mat \<Rightarrow> bool) \<Rightarrow> (PoseState, real) engine \<Rightarrow> PoseUKF \<Rightarrow> real measurement
     \<Rightarrow> error + PoseUKF" where
  "integrateMeasurement_Z_Position checkMeasurment eng obj z_position =
     (if \<not> checkMeasurment (mu z_position) (cov z_position) then Inl BadMeasurement
      else Inr (obj \<lparr> ukf := ukfom_update eng (mu z_position) measurementZPosition (cov z_position)
                                accept_any_mahalanobis_distance (ukf obj) \<rparr>))"

definition integrateMeasurement_XY_Position ::
  "(vec2 \<Rightarrow> mat \<Rightarrow> bool) \<Rightarrow> (PoseState, vec2) engine \<Rightarrow> PoseUKF \<Rightarrow> vec2 measurement
     \<Rightarrow> error + PoseUKF" where
  "integrateMeasurement_XY_Position checkMeasurment eng obj xy_position =
     (if \<not> checkMeasurment (mu xy_position) (cov xy_position) then Inl BadMeasurement
      else Inr (obj \<lparr> ukf := ukfom_update eng (mu xy_position) measurementXYPosition
                                (cov xy_position) d2p95 (ukf obj) \<rparr>))"

definition integrateMeasurement_Pressure ::
  "(real \<Rightarrow> mat \<Rightarrow> bool) \<Rightarrow> (PoseState, real) engine \<Rightarrow> PoseUKF \<Rightarrow> real measurement \<Rightarrow> vec3
     \<Rightarrow> error + PoseUKF" where
  "integrateMeasurement_Pressure checkMeasurment eng obj pressure pressure_sensor_in_imu =
     (if \<not> checkMeasurment (mu pressure) (cov pressure) then Inl BadMeasurement
      else Inr (obj \<lparr> ukf :=
                        ukfom_update eng (mu pressure)
                          (\<lambda>s. measurementPressureSensor s pressure_sensor_in_imu
                                 (atmospheric_pressure (filter_parameter obj)))
                          (cov pressure) accept_any_mahalanobis_distance (ukf obj) \<rparr>))"

definition integrateMeasurement_GeographicPosition ::
  "(vec2 \<Rightarrow> mat \<Rightarrow> bool) \<Rightarrow> collaborators \<Rightarrow> (PoseState, vec2) engine \<Rightarrow> PoseUKF
     \<Rightarrow> vec2 measurement \<Rightarrow> vec3 \<Rightarrow> error + PoseUKF" where
  "integrateMeasurement_GeographicPosition checkMeasurment ext eng obj geo_position gps_in_body =
     (if \<not> checkMeasurment (mu geo_position) (cov geo_position) then Inl BadMeasurement
      else
        (let projected = worldToNav ext (projection obj) (fst (mu geo_position))
                           (snd (mu geo_position));
             lever = quat_rotate (orientation (ukf_mu (ukf obj))) gps_in_body;
             projected_position = sub2 projected (x3 lever, y3 lever)
         in Inr (obj \<lparr> ukf := ukfom_update eng projected_position measurementXYPosition
                                   (cov geo_position) d2p95 (ukf obj) \<rparr>)))"

definition integrateMeasurement_BodyEfforts ::
  "(vec6 \<Rightarrow> mat \<Rightarrow> bool) \<Rightarrow> collaborators \<Rightarrow> (PoseState, vec6) engine \<Rightarrow> PoseUKF
     \<Rightarrow> vec6 measurement \<Rightarrow> bool \<Rightarrow> error + PoseUKF" where
  "integrateMeasurement_BodyEfforts checkMeasurment ext eng obj body_efforts only_affect_velocity =
     (if \<not> checkMeasurment (mu body_efforts) (cov body_efforts) then Inl BadMeasurement
      else if only_affect_velocity then
        (let m = ukf_mu (ukf obj);
             water_velocity' = (fst (water_velocity m), snd (water_velocity m), 0);
             rotation_rate_body = getRotationRate ext obj;
             acceleration_body =
               sub3 (quat_rotate (quat_inverse (orientation m)) (acceleration m))
                    (cross rotation_rate_body
                       (cross rotation_rate_body (imu_in_body (filter_parameter obj))))
         in Inr (obj \<lparr> ukf :=
                          ukfom_update eng (mu body_efforts)
                            (\<lambda>s. constrainVelocity ext s (dynamic_model obj)
                                   (imu_in_body (filter_parameter obj)) rotation_rate_body
                                   water_velocity' (orientation m) acceleration_body)
                            (cov body_efforts) accept_any_mahalanobis_distance (ukf obj) \<rparr>))
      else
        (case ukfom_update_shared eng (mu body_efforts)
                (\<lambda>s dm. measurementEfforts ext s dm (imu_in_body (filter_parameter obj))
                          (getRotationRate ext obj))
                (cov body_efforts) accept_any_mahalanobis_distance (ukf obj) (dynamic_model obj) of
           (dm, Inl e) \<Rightarrow> Inl e
         | (dm, Inr flt) \<Rightarrow> Inr (obj \<lparr> ukf := flt, dynamic_model := dm \<rparr>)))"

definition integrateMeasurement_WaterVelocity ::
  "(vec2 \<Rightarrow> mat \<Rightarrow> bool) \<Rightarrow> (PoseState, vec2) engine \<Rightarrow> PoseUKF \<Rightarrow> vec2 measurement \<Rightarrow> real
     \<Rightarrow> error + PoseUKF" where
  "integrateMeasurement_WaterVelocity checkMeasurment eng obj adcp_measurements cell_weighting =
     (if \<not> checkMeasurment (mu adcp_measurements) (cov adcp_measurements) then Inl BadMeasurement
      else Inr (obj \<lparr> ukf :=
                        ukfom_update eng (mu adcp_measurements)
                          (\<lambda>s. measurementWaterCurrents s cell_weighting)
                          (cov adcp_measurements) d2p95 (ukf obj) \<rparr>))"

subsection \<open>Visual markers\<close>

text \<open>
  \<open>PoseStateWithMarkerCov::Zero()\<close> with the two block assignments: the matrix has
  \<open>WState::DOF + 6\<close> rows, so its bottom-right 6x6 corner starts at \<open>WState::DOF\<close>.
\<close>

definition augmented_state_cov :: "mat \<Rightarrow> mat \<Rightarrow> mat" where
  "augmented_state_cov sigma cov_marker_pose =
     set_block (set_block mat_zero 0 0 PoseState_DOF PoseState_DOF sigma)
       PoseState_DOF PoseState_DOF 6 6 cov_marker_pose"

definition projection_cov :: "CameraConfiguration \<Rightarrow> mat \<Rightarrow> mat" where
  "projection_cov camera_config c =
     (let fx2 = fx camera_config ^ 2;
          fy2 = fy camera_config ^ 2;
          fxy = fx camera_config * fy camera_config
      in (\<lambda>i j. if i = 0 \<and> j = 0 then c 0 0 / fx2
                else if i = 0 \<and> j = 1 then c 0 1 / fxy
                else if i = 1 \<and> j = 0 then c 1 0 / fxy
                else if i = 1 \<and> j = 1 then c 1 1 / fy2
                else 0))"

text \<open>
  The loop over the features, from index \<open>i\<close>. The counter is a natural number: the
  vectors are taken to hold fewer than \<open>2 ^ 32\<close> elements, so the \<open>unsigned\<close> counter does not
  wrap.
\<close>

function marker_loop ::
  "(vec2 \<Rightarrow> mat \<Rightarrow> bool) \<Rightarrow> collaborators \<Rightarrow> (PoseStateWithMarker, vec3) engine
     \<Rightarrow> vec2 measurement list \<Rightarrow> vec3 list \<Rightarrow> CameraConfiguration \<Rightarrow> affine3 \<Rightarrow> nat
     \<Rightarrow> PoseStateWithMarker ukf \<Rightarrow> error + PoseStateWithMarker ukf" where
  "marker_loop checkMeasurment ext eng marker_corners feature_positions camera_config
       camera_in_IMU i augmented_ukf =
     (if i < length marker_corners \<or> i < length feature_positions then
        (case vector_at marker_corners i of
           None \<Rightarrow> Inl OutOfBounds
         | Some corner \<Rightarrow>
             if \<not> checkMeasurment (mu corner) (cov corner) then Inl BadMeasurement
             else
               (let projection' =
                      S2_of ext ((fst (mu corner) - cx camera_config) / fx camera_config,
                                 (snd (mu corner) - cy camera_config) / fy camera_config,
                                 1)
                in case vector_at feature_positions i of
                     None \<Rightarrow> Inl OutOfBounds
                   | Some feature_pos \<Rightarrow>
                       marker_loop checkMeasurment ext eng marker_corners feature_positions
                         camera_config camera_in_IMU (Suc i)
                         (ukfom_update eng projection'
                            (\<lambda>s. measurementVisualLandmark ext s feature_pos camera_in_IMU)
                            (projection_cov camera_config (cov corner))
                            accept_any_mahalanobis_distance augmented_ukf)))
      else Inr augmented_ukf)"
  by pat_completeness auto
termination
  by (relation "measure (\<lambda>(c, e, g, mc, fp, cc, ci, i, a). max (length mc) (length fp) - i)")
     (auto simp: vector_at_def split: if_splits)

declare marker_loop.simps [simp del]

definition integrateMeasurement_VisualFeatures ::
  "(vec2 \<Rightarrow> mat \<Rightarrow> bool) \<Rightarrow> collaborators \<Rightarrow> (PoseStateWithMarker, vec3) engine \<Rightarrow> PoseUKF
     \<Rightarrow> vec2 measurement list \<Rightarrow> vec3 list \<Rightarrow> affine3 \<Rightarrow> mat \<Rightarrow> CameraConfiguration \<Rightarrow> affine3
     \<Rightarrow> error + PoseUKF" where
  "integrateMeasurement_VisualFeatures checkMeasurment ext eng obj marker_corners
       feature_positions marker_pose cov_marker_pose camera_config camera_in_IMU =
     (let augmented_state =
            \<lparr> filter_state = ukf_mu (ukf obj),
              marker_position = translation marker_pose,
              marker_orientation = SO3_of_rotation ext marker_pose \<rparr>;
          augmented_ukf =
            \<lparr> ukf_mu = augmented_state,
              ukf_sigma = augmented_state_cov (ukf_sigma (ukf obj)) cov_marker_pose \<rparr>
      in case marker_loop checkMeasurment ext eng marker_corners feature_positions camera_config
                camera_in_IMU 0 augmented_ukf of
           Inl e \<Rightarrow> Inl e
         | Inr au \<Rightarrow>
             Inr (obj \<lparr> ukf := \<lparr> ukf_mu = filter_state (ukf_mu au),
                                 ukf_sigma = block (ukf_sigma au) 0 0 PoseState_DOF
                                               PoseState_DOF \<rparr> \<rparr>))"

section \<open>The properties in the specification's words\<close>

text \<open>
  First-order Gauss-Markov relaxation of a scalar toward an offset, as section 4.3 of the
  specification writes it: \<open>x \<oplus>= (-(x - \<mu>*) / \<tau>) \<sqdot> \<Delta>t\<close>. The lifted versions relax each
  component of a vector.
\<close>

definition gauss_markov :: "real \<Rightarrow> real \<Rightarrow> real \<Rightarrow> real \<Rightarrow> real" where
  "gauss_markov x offset tau delta_time = x + (- (x - offset) / tau) * delta_time"

fun gauss_markov2 :: "vec2 \<Rightarrow> vec2 \<Rightarrow> real \<Rightarrow> real \<Rightarrow> vec2" where
  "gauss_markov2 (a1, a2) (m1, m2) tau delta_time =
     (gauss_markov a1 m1 tau delta_time, gauss_markov a2 m2 tau delta_time)"

fun gauss_markov3 :: "vec3 \<Rightarrow> vec3 \<Rightarrow> real \<Rightarrow> real \<Rightarrow> vec3" where
  "gauss_markov3 (a1, a2, a3) (m1, m2, m3) tau delta_time =
     (gauss_markov a1 m1 tau delta_time, gauss_markov a2 m2 tau delta_time,
      gauss_markov a3 m3 tau delta_time)"

definition gauss_markov_mat :: "mat \<Rightarrow> mat \<Rightarrow> real \<Rightarrow> real \<Rightarrow> mat" where
  "gauss_markov_mat A M tau delta_time = (\<lambda>i j. gauss_markov (A i j) (M i j) tau delta_time)"

text \<open>
  The two outcomes of an update in the words of sections 4.2 and 4.6: under the p95 gate
  the filter is left as it is when the squared Mahalanobis distance exceeds 5.991 and
  takes the posterior otherwise; under the accept-any gate it always takes the
  posterior.
\<close>

definition innovation_distance :: "('s, 'z) engine \<Rightarrow> 'z \<Rightarrow> ('s \<Rightarrow> 'z) \<Rightarrow> mat \<Rightarrow> 's ukf \<Rightarrow> real" where
  "innovation_distance eng z h R flt =
     mahalanobis2 eng flt (sigma_points eng flt) (map h (sigma_points eng flt)) z R"

definition accepted_update :: "('s, 'z) engine \<Rightarrow> 'z \<Rightarrow> ('s \<Rightarrow> 'z) \<Rightarrow> mat \<Rightarrow> 's ukf \<Rightarrow> 's ukf" where
  "accepted_update eng z h R flt =
     posterior eng flt (sigma_points eng flt) (map h (sigma_points eng flt)) z R"

definition p95_update :: "('s, 'z) engine \<Rightarrow> 'z \<Rightarrow> ('s \<Rightarrow> 'z) \<Rightarrow> mat \<Rightarrow> 's ukf \<Rightarrow> 's ukf" where
  "p95_update eng z h R flt =
     (if innovation_distance eng z h R flt > 5.991 then flt else accepted_update eng z h R flt)"

text \<open>
  The objects a filter can reach from its construction with a given initial state: the
  constructor's result, and the result of any successful public operation on a
  reachable object.
\<close>

inductive reachable :: "PoseState \<Rightarrow> PoseUKF \<Rightarrow> bool" for initial_state :: PoseState where
  constructed:
    "reachable initial_state (PoseUKF_init initial_state state_cov location model_parameters fp Q)"
| predicted:
    "reachable initial_state obj
     \<Longrightarrow> reachable initial_state
           (predictionStepImpl ext (eng :: (PoseState, unit) engine) obj delta_t)"
| velocity:
    "reachable initial_state obj
     \<Longrightarrow> integrateMeasurement_Velocity chk3 eng3 obj m3 = Inr obj'
     \<Longrightarrow> reachable initial_state obj'"
| acceleration:
    "reachable initial_state obj
     \<Longrightarrow> integrateMeasurement_Acceleration chk3 eng3 obj m3 = Inr obj'
     \<Longrightarrow> reachable initial_state obj'"
| rotation_rate:
    "reachable initial_state obj
     \<Longrightarrow> integrateMeasurement_RotationRate chk3 obj m3 = Inr obj'
     \<Longrightarrow> reachable initial_state obj'"
| z_position:
    "reachable initial_state obj
     \<Longrightarrow> integrateMeasurement_Z_Position chk1 eng1 obj m1 = Inr obj'
     \<Longrightarrow> reachable initial_state obj'"
| xy_position:
    "reachable initial_state obj
     \<Longrightarrow> integrateMeasurement_XY_Position chk2 eng2 obj m2 = Inr obj'
     \<Longrightarrow> reachable initial_state obj'"
| pressure:
    "reachable initial_state obj
     \<Longrightarrow> integrateMeasurement_Pressure chk1 eng1 obj m1 r = Inr obj'
     \<Longrightarrow> reachable initial_state obj'"
| geographic_position:
    "reachable initial_state obj
     \<Longrightarrow> integrateMeasurement_GeographicPosition chk2 ext eng2 obj m2 r = Inr obj'
     \<Longrightarrow> reachable initial_state obj'"
| body_efforts:
    "reachable initial_state obj
     \<Longrightarrow> integrateMeasurement_BodyEfforts chk6 ext eng6 obj m6 only_velocity = Inr obj'
     \<Longrightarrow> reachable initial_state obj'"
| water_velocity:
    "reachable initial_state obj
     \<Longrightarrow> integrateMeasurement_WaterVelocity chk2 eng2 obj m2 w = Inr obj'
     \<Longrightarrow> reachable initial_state obj'"
| visual_features:
    "reachable initial_state obj
     \<Longrightarrow> integrateMeasurement_VisualFeatures chk2 ext engm obj corners features marker_pose
           cov_marker_pose camera_config camera_in_IMU = Inr obj'
     \<Longrightarrow> reachable initial_state obj'"

text \<open>
  The step of the feature loop on one correspondence, and the indices of a field's
  diagonal block.
\<close>

definition feature_update ::
  "collaborators \<Rightarrow> (PoseStateWithMarker, vec3) engine \<Rightarrow> CameraConfiguration \<Rightarrow> affine3
     \<Rightarrow> PoseStateWithMarker ukf \<Rightarrow> vec2 measurement \<times> vec3 \<Rightarrow> PoseStateWithMarker ukf" where
  "feature_update ext eng camera_config camera_in_IMU au cf =
     accepted_update eng
       (S2_of ext ((fst (mu (fst cf)) - cx camera_config) / fx camera_config,
                   (snd (mu (fst cf)) - cy camera_config) / fy camera_config, 1))
       (\<lambda>s. measurementVisualLandmark ext s (snd cf) camera_in_IMU)
       (projection_cov camera_config (cov (fst cf))) au"

text \<open>
  The number of corner measurements \<open>checkMeasurment\<close> is asked about before the feature
  loop reaches the first index at which one of two vectors of unequal sizes has no element:
  a missing feature position is read after the corner at that index has been checked, a
  missing corner is read before any check at that index.
\<close>

definition corners_checked :: "nat \<Rightarrow> nat \<Rightarrow> nat" where
  "corners_checked n_corners n_features =
     (if n_features < n_corners then Suc n_features else n_corners)"

definition in_block :: "field \<Rightarrow> nat \<Rightarrow> nat \<Rightarrow> bool" where
  "in_block f i j =
     (field_idx f \<le> i \<and> i < field_idx f + field_DOF f
      \<and> field_idx f \<le> j \<and> j < field_idx f + field_DOF f)"

section \<open>Sample data\<close>

text \<open>Concrete inputs on which the theorems below are exercised.\<close>

definition sample_state :: PoseState where
  "sample_state =
     \<lparr> position = (0, 0, - 10), orientation = Quaternion 1 0 0 0, velocity = (1, 0, 0),
       acceleration = (0, 0, 0), bias_gyro = (1, 1, 1), bias_acc = (2, 2, 2), gravity = 9.81,
       inertia = mat_identity, lin_damping = mat_identity, quad_damping = mat_identity,
       water_velocity = (0, 0), water_velocity_below = (0, 0), bias_adcp = (1, 2),
       water_density = 1025 \<rparr>"

definition sample_parameter :: PoseUKFParameter where
  "sample_parameter =
     \<lparr> imu_in_body = (0, 0, 0), gyro_bias_offset = (7, 7, 7), gyro_bias_tau = 1,
       acc_bias_offset = (5, 5, 5), acc_bias_tau = 1, inertia_tau = 1, lin_damping_tau = 1,
       quad_damping_tau = 1, water_velocity_tau = 1, water_velocity_limits = 1,
       water_velocity_scale = 1, adcp_bias_tau = 1, atmospheric_pressure = 101325,
       water_density_tau = 1 \<rparr>"

definition sample_location :: LocationConfiguration where
  "sample_location = \<lparr> latitude = 0, longitude = 0 \<rparr>"

definition sample_model :: UWVParameters where
  "sample_model = \<lparr> inertia_matrix = mat_zero, damping_matrices = (mat_zero, mat_zero) \<rparr>"

definition sample_collaborators :: collaborators where
  "sample_collaborators =
     \<lparr> navToWorld = (\<lambda>loc a b. (latitude loc, longitude loc)),
       worldToNav = (\<lambda>loc a b. (0, 0)),
       boxplus_SO3 = (\<lambda>q v s. q),
       SO3_of_rotation = (\<lambda>A. Quaternion 1 0 0 0),
       S2_of = (\<lambda>v. v),
       affine_inverse = (\<lambda>A. A),
       calcEfforts = (\<lambda>p a v q. (\<lambda>i. 0)),
       predict_efforts = (\<lambda>X n0 n1 n2 n3 n4 n5 n6 n7 n8 n9. [0, 0, 0]) \<rparr>"

text \<open>
  A toy engine: one sigma point (the mean), a distance read from the noise matrix, and a
  posterior that keeps the mean and replaces the covariance by the noise matrix.
\<close>

definition sample_engine :: "('s, 'z) engine" where
  "sample_engine =
     \<lparr> sigma_points = (\<lambda>flt. [ukf_mu flt]),
       recombine = (\<lambda>flt X Q. \<lparr> ukf_mu = (case X of [] \<Rightarrow> ukf_mu flt | s # ss \<Rightarrow> s),
                                ukf_sigma = mat_add (ukf_sigma flt) Q \<rparr>),
       mahalanobis2 = (\<lambda>flt X Z z R. R 0 0),
       posterior = (\<lambda>flt X Z z R. flt \<lparr> ukf_sigma := R \<rparr>) \<rparr>"

definition sample_filter :: PoseUKF where
  "sample_filter =
     PoseUKF_init sample_state mat_identity sample_location sample_model sample_parameter
       mat_identity"

definition sample_corner :: "vec2 measurement" where
  "sample_corner = \<lparr> mu = (0, 0), cov = mat_identity \<rparr>"

definition sample_camera :: CameraConfiguration where
  "sample_camera = \<lparr> fx = 1, fy = 1, cx = 0, cy = 0 \<rparr>"

definition sample_affine :: affine3 where
  "sample_affine = \<lparr> linear_part = mat_identity, translation = (0, 0, 0) \<rparr>"

definition sample_augmented :: "PoseStateWithMarker ukf" where
  "sample_augmented =
     \<lparr> ukf_mu = \<lparr> filter_state = sample_state, marker_position = (0, 0, 0),
                  marker_orientation = Quaternion 1 0 0 0 \<rparr>,
       ukf_sigma = mat_identity \<rparr>"

section \<open>Auxiliary facts\<close>

lemma quat_rotate_zero: "quat_rotate q (0, 0, 0) = (0, 0, 0)"
  by (simp add: quat_rotate_def quat_vec_def)

lemma relax_scalar: "x + dt * (- 1 / tau * (x - off)) = gauss_markov x off tau dt"
  by (simp add: gauss_markov_def divide_inverse algebra_simps)

lemma relax_scalar_zero: "x + dt * (- 1 / tau * x) = gauss_markov x 0 tau dt"
  by (simp add: gauss_markov_def divide_inverse algebra_simps)

lemma relax3:
  "boxplus3 a (scale3 (- 1 / tau) (sub3 a off)) dt = gauss_markov3 a off tau dt"
  by (cases a; cases off)
     (simp only: boxplus3_def sub3.simps scale3.simps add3.simps gauss_markov3.simps relax_scalar)

lemma relax2_zero:
  "boxplus2 a (scale2 (- 1 / tau) a) dt = gauss_markov2 a (0, 0) tau dt"
  by (cases a)
     (simp only: boxplus2_def scale2.simps add2.simps gauss_markov2.simps relax_scalar_zero)

lemma relax_mat:
  "boxplus_mat A (mat_scale (- 1 / tau) (mat_sub A M)) dt = gauss_markov_mat A M tau dt"
  by (simp only: boxplus_mat_def mat_scale_def mat_sub_def mat_add_def gauss_markov_mat_def
      relax_scalar)

lemma relax1:
  "boxplus1 x (- 1 / tau * (x - off)) dt = gauss_markov x off tau dt"
  by (simp only: boxplus1_def relax_scalar)

text \<open>The relaxed fields of the process model, as the source computes them.\<close>

lemma processModel_fields:
  "bias_gyro (processModel ext state rr proj io lo qo wo fp dt)
     = boxplus3 (bias_gyro state)
         (scale3 (- 1 / gyro_bias_tau fp) (sub3 (bias_gyro state) (gyro_bias_offset fp))) dt"
  "bias_acc (processModel ext state rr proj io lo qo wo fp dt)
     = boxplus3 (bias_acc state)
         (scale3 (- 1 / acc_bias_tau fp) (sub3 (bias_acc state) (acc_bias_offset fp))) dt"
  "inertia (processModel ext state rr proj io lo qo wo fp dt)
     = boxplus_mat (inertia state)
         (mat_scale (- 1 / inertia_tau fp) (mat_sub (inertia state) io)) dt"
  "lin_damping (processModel ext state rr proj io lo qo wo fp dt)
     = boxplus_mat (lin_damping state)
         (mat_scale (- 1 / lin_damping_tau fp) (mat_sub (lin_damping state) lo)) dt"
  "quad_damping (processModel ext state rr proj io lo qo wo fp dt)
     = boxplus_mat (quad_damping state)
         (mat_scale (- 1 / quad_damping_tau fp) (mat_sub (quad_damping state) qo)) dt"
  "water_velocity (processModel ext state rr proj io lo qo wo fp dt)
     = boxplus2 (water_velocity state)
         (scale2 (- 1 / water_velocity_tau fp) (water_velocity state)) dt"
  "water_velocity_below (processModel ext state rr proj io lo qo wo fp dt)
     = boxplus2 (water_velocity_below state)
         (scale2 (- 1 / water_velocity_tau fp) (water_velocity_below state)) dt"
  "bias_adcp (processModel ext state rr proj io lo qo wo fp dt)
     = boxplus2 (bias_adcp state) (scale2 (- 1 / adcp_bias_tau fp) (bias_adcp state)) dt"
  "water_density (processModel ext state rr proj io lo qo wo fp dt)
     = boxplus1 (water_density state)
         (- 1 / water_density_tau fp * (water_density state - wo)) dt"
  by (simp_all add: processModel_def Let_def split: prod.splits)

lemma processModel_relaxation:
  "bias_gyro (processModel ext state rr proj io lo qo wo fp dt)
     = gauss_markov3 (bias_gyro state) (gyro_bias_offset fp) (gyro_bias_tau fp) dt"
  "bias_acc (processModel ext state rr proj io lo qo wo fp dt)
     = gauss_markov3 (bias_acc state) (acc_bias_offset fp) (acc_bias_tau fp) dt"
  "inertia (processModel ext state rr proj io lo qo wo fp dt)
     = gauss_markov_mat (inertia state) io (inertia_tau fp) dt"
  "lin_damping (processModel ext state rr proj io lo qo wo fp dt)
     = gauss_markov_mat (lin_damping state) lo (lin_damping_tau fp) dt"
  "quad_damping (processModel ext state rr proj io lo qo wo fp dt)
     = gauss_markov_mat (quad_damping state) qo (quad_damping_tau fp) dt"
  "water_velocity (processModel ext state rr proj io lo qo wo fp dt)
     = gauss_markov2 (water_velocity state) (0, 0) (water_velocity_tau fp) dt"
  "water_velocity_below (processModel ext state rr proj io lo qo wo fp dt)
     = gauss_markov2 (water_velocity_below state) (0, 0) (water_velocity_tau fp) dt"
  "bias_adcp (processModel ext state rr proj io lo qo wo fp dt)
     = gauss_markov2 (bias_adcp state) (0, 0) (adcp_bias_tau fp) dt"
  "water_density (processModel ext state rr proj io lo qo wo fp dt)
     = gauss_markov (water_density state) wo (water_density_tau fp) dt"
  by (simp_all only: processModel_fields relax3 relax2_zero relax_mat relax1)

text \<open>No operation of the filter writes the offsets the constructor captured.\<close>

lemma reachable_offsets:
  "reachable s0 obj \<Longrightarrow>
     inertia_offset obj = inertia s0 \<and> lin_damping_offset obj = lin_damping s0
     \<and> quad_damping_offset obj = quad_damping s0 \<and> water_density_offset obj = water_density s0"
proof (induction rule: reachable.induct)
  case constructed
  show ?case by (simp add: PoseUKF_init_def)
next
  case predicted
  then show ?case by (simp add: predictionStepImpl_def)
next
  case velocity
  then show ?case by (auto simp: integrateMeasurement_Velocity_def split: if_splits)
next
  case acceleration
  then show ?case by (auto simp: integrateMeasurement_Acceleration_def split: if_splits)
next
  case rotation_rate
  then show ?case by (auto simp: integrateMeasurement_RotationRate_def split: if_splits)
next
  case z_position
  then show ?case by (auto simp: integrateMeasurement_Z_Position_def split: if_splits)
next
  case xy_position
  then show ?case by (auto simp: integrateMeasurement_XY_Position_def split: if_splits)
next
  case pressure
  then show ?case by (auto simp: integrateMeasurement_Pressure_def split: if_splits)
next
  case geographic_position
  then show ?case
    by (auto simp: integrateMeasurement_GeographicPosition_def Let_def split: if_splits)
next
  case body_efforts
  then show ?case
    by (auto simp: integrateMeasurement_BodyEfforts_def Let_def
        split: if_splits prod.splits sum.splits)
next
  case water_velocity
  then show ?case by (auto simp: integrateMeasurement_WaterVelocity_def split: if_splits)
next
  case visual_features
  then show ?case
    by (auto simp: integrateMeasurement_VisualFeatures_def Let_def split: sum.splits)
qed

text \<open>The block assignments of \<open>measurementEfforts\<close>, entry by entry.\<close>

lemma overwrite_blocks_entries:
  "overwrite_blocks M S =
     (\<lambda>i j. if (i = 0 \<or> i = 1 \<or> i = 5) \<and> (j = 0 \<or> j = 1 \<or> j = 5)
            then S (if i = 5 then 2 else i) (if j = 5 then 2 else j) else M i j)"
  by (intro ext) (auto simp: overwrite_blocks_def set_block_def block_def Let_def)

lemma overwrite_blocks_twice:
  "overwrite_blocks (overwrite_blocks M S') S = overwrite_blocks M S"
  by (intro ext) (simp add: overwrite_blocks_entries)

lemma set_damping_parameters_twice:
  "set_damping_parameters s (set_damping_parameters s' dm) = set_damping_parameters s dm"
  by (simp add: set_damping_parameters_def overwrite_blocks_twice)

lemma measurementEfforts_model:
  "fst (measurementEfforts ext state dm imu rr) = set_damping_parameters state dm"
  by (simp add: measurementEfforts_def Let_def)

text \<open>The engine's update under the two gates the source passes.\<close>

lemma update_p95: "ukfom_update eng z h R d2p95 flt = p95_update eng z h R flt"
  by (simp add: ukfom_update_def p95_update_def d2p95_def innovation_distance_def
      accepted_update_def Let_def)

lemma update_any:
  "ukfom_update eng z h R accept_any_mahalanobis_distance flt = accepted_update eng z h R flt"
  by (simp add: ukfom_update_def accept_any_mahalanobis_distance_def accepted_update_def Let_def)

text \<open>One iteration of the feature loop.\<close>

lemma marker_loop_step:
  "marker_loop chk ext eng mc fp cc ci i au =
     (if i < length mc \<or> i < length fp then
        (case vector_at mc i of
           None \<Rightarrow> Inl OutOfBounds
         | Some c \<Rightarrow>
             if chk (mu c) (cov c) then
               (case vector_at fp i of
                  None \<Rightarrow> Inl OutOfBounds
                | Some f \<Rightarrow>
                    marker_loop chk ext eng mc fp cc ci (Suc i)
                      (feature_update ext eng cc ci au (c, f)))
             else Inl BadMeasurement)
      else Inr au)"
  by (subst marker_loop.simps)
     (simp add: update_any feature_update_def Let_def split: option.splits)

lemma marker_loop_equal_lengths:
  "length mc = length fp \<Longrightarrow> marker_loop chk ext eng mc fp cc ci i au \<noteq> Inl OutOfBounds"
proof (induction "length mc - i" arbitrary: i au)
  case 0
  then show ?case by (subst marker_loop_step) (simp add: vector_at_def)
next
  case (Suc n)
  then have lt: "i < length mc" "i < length fp" by simp_all
  from Suc have "n = length mc - Suc i" by simp
  then have IH: "\<And>a. marker_loop chk ext eng mc fp cc ci (Suc i) a \<noteq> Inl OutOfBounds"
    using Suc.hyps(1) Suc.prems by blast
  show ?case
    by (subst marker_loop_step) (simp add: lt vector_at_def IH)
qed

lemma marker_loop_unequal_lengths:
  assumes "length mc \<noteq> length fp" and "\<forall>c\<in>set mc. chk (mu c) (cov c)"
  shows "i < max (length mc) (length fp)
         \<Longrightarrow> marker_loop chk ext eng mc fp cc ci i au = Inl OutOfBounds"
proof (induction "max (length mc) (length fp) - i" arbitrary: i au)
  case 0
  then show ?case by (auto simp: max_def split: if_splits)
next
  case (Suc n)
  show ?case
  proof (cases "i < length mc \<and> i < length fp")
    case True
    then have "Suc i < max (length mc) (length fp)" using assms(1) by auto
    moreover from Suc have "n = max (length mc) (length fp) - Suc i" by simp
    ultimately have IH: "\<And>a. marker_loop chk ext eng mc fp cc ci (Suc i) a = Inl OutOfBounds"
      using Suc.hyps(1) by blast
    from True assms(2) have "chk (mu (mc ! i)) (cov (mc ! i))" by simp
    with True IH show ?thesis
      by (subst marker_loop_step) (simp add: vector_at_def)
  next
    case False
    from False Suc.prems assms(2) show ?thesis
      by (subst marker_loop_step) (auto simp: vector_at_def)
  qed
qed

text \<open>With unequal sizes the loop ends in one of its two errors, and which one is decided.\<close>

lemma marker_loop_unequal_exact:
  assumes ne: "length mc \<noteq> length fp"
  shows "i \<le> min (length mc) (length fp)
         \<Longrightarrow> marker_loop chk ext eng mc fp cc ci i au =
             (if (\<forall>k. i \<le> k \<and> k < corners_checked (length mc) (length fp)
                       \<longrightarrow> chk (mu (mc ! k)) (cov (mc ! k)))
              then Inl OutOfBounds else Inl BadMeasurement)"
proof (induction "min (length mc) (length fp) - i" arbitrary: i au)
  case 0
  then have i: "i = min (length mc) (length fp)" by simp
  show ?case
  proof (cases "length mc < length fp")
    case True
    with i have "i = length mc" by simp
    with True show ?thesis
      by (subst marker_loop_step) (simp add: vector_at_def corners_checked_def)
  next
    case False
    with ne have lt: "length fp < length mc" by simp
    with i have il: "i = length fp" by simp
    have "(\<forall>k. i \<le> k \<and> k < Suc (length fp) \<longrightarrow> chk (mu (mc ! k)) (cov (mc ! k)))
            \<longleftrightarrow> chk (mu (mc ! i)) (cov (mc ! i))"
      using il by (auto simp: less_Suc_eq_le)
    with lt il show ?thesis
      by (subst marker_loop_step) (simp add: vector_at_def corners_checked_def)
  qed
next
  case (Suc n)
  then have lt: "i < length mc" "i < length fp" by simp_all
  from Suc.hyps(2) have "n = min (length mc) (length fp) - Suc i" by simp
  moreover from lt have "Suc i \<le> min (length mc) (length fp)" by simp
  ultimately have IH: "\<And>a. marker_loop chk ext eng mc fp cc ci (Suc i) a =
             (if (\<forall>k. Suc i \<le> k \<and> k < corners_checked (length mc) (length fp)
                       \<longrightarrow> chk (mu (mc ! k)) (cov (mc ! k)))
              then Inl OutOfBounds else Inl BadMeasurement)"
    using Suc.hyps(1) by blast
  from lt have b: "i < corners_checked (length mc) (length fp)"
    by (simp add: corners_checked_def)
  have split: "(\<forall>k. i \<le> k \<and> k < corners_checked (length mc) (length fp)
                       \<longrightarrow> chk (mu (mc ! k)) (cov (mc ! k)))
        \<longleftrightarrow> chk (mu (mc ! i)) (cov (mc ! i))
            \<and> (\<forall>k. Suc i \<le> k \<and> k < corners_checked (length mc) (length fp)
                       \<longrightarrow> chk (mu (mc ! k)) (cov (mc ! k)))"
  proof (intro iffI conjI allI impI)
    assume h: "\<forall>k. i \<le> k \<and> k < corners_checked (length mc) (length fp)
                       \<longrightarrow> chk (mu (mc ! k)) (cov (mc ! k))"
    from h b show "chk (mu (mc ! i)) (cov (mc ! i))" by simp
  next
    fix k
    assume h: "\<forall>k. i \<le> k \<and> k < corners_checked (length mc) (length fp)
                       \<longrightarrow> chk (mu (mc ! k)) (cov (mc ! k))"
      and k: "Suc i \<le> k \<and> k < corners_checked (length mc) (length fp)"
    from k have "i \<le> k \<and> k < corners_checked (length mc) (length fp)" by simp
    with h show "chk (mu (mc ! k)) (cov (mc ! k))" by blast
  next
    fix k
    assume h: "chk (mu (mc ! i)) (cov (mc ! i))
            \<and> (\<forall>k. Suc i \<le> k \<and> k < corners_checked (length mc) (length fp)
                       \<longrightarrow> chk (mu (mc ! k)) (cov (mc ! k)))"
      and k: "i \<le> k \<and> k < corners_checked (length mc) (length fp)"
    show "chk (mu (mc ! k)) (cov (mc ! k))"
    proof (cases "k = i")
      case True
      with h show ?thesis by simp
    next
      case False
      with k have "Suc i \<le> k \<and> k < corners_checked (length mc) (length fp)" by simp
      with h [THEN conjunct2] show ?thesis by blast
    qed
  qed
  show ?case
    by (subst marker_loop_step) (simp add: lt vector_at_def IH split)
qed

lemma marker_loop_fold:
  assumes "length mc = length fp" and "\<forall>c\<in>set mc. chk (mu c) (cov c)"
  shows "marker_loop chk ext eng mc fp cc ci i au
           = Inr (foldl (feature_update ext eng cc ci) au (drop i (zip mc fp)))"
proof (induction "length mc - i" arbitrary: i au)
  case 0
  with assms(1) show ?case by (subst marker_loop_step) simp
next
  case (Suc n)
  then have lt: "i < length mc" "i < length fp" using assms(1) by simp_all
  from Suc have "n = length mc - Suc i" by simp
  then have IH: "\<And>a. marker_loop chk ext eng mc fp cc ci (Suc i) a
                       = Inr (foldl (feature_update ext eng cc ci) a (drop (Suc i) (zip mc fp)))"
    using Suc.hyps(1) by blast
  from lt assms(2) have ok: "chk (mu (mc ! i)) (cov (mc ! i))" by simp
  from lt have d: "drop i (zip mc fp) = (mc ! i, fp ! i) # drop (Suc i) (zip mc fp)"
    by (simp add: Cons_nth_drop_Suc [symmetric])
  show ?case
    by (subst marker_loop_step) (simp add: lt vector_at_def ok IH d)
qed

text \<open>The layout of the manifold and the blocks of a covariance.\<close>

lemma DOF_value: "PoseState_DOF = 53"
  by (simp add: PoseState_DOF_def manifold_fields_def)

lemma field_layout:
  "field_idx F_orientation = 3"
  "field_idx F_water_velocity = 46"
  "field_idx F_water_velocity_below = 48"
  by (simp_all add: field_idx_def manifold_fields_def)

lemma augmented_entries:
  "augmented_state_cov sigma C =
     (\<lambda>i j. if i < PoseState_DOF \<and> j < PoseState_DOF then sigma i j
            else if PoseState_DOF \<le> i \<and> i < PoseState_DOF + 6
                    \<and> PoseState_DOF \<le> j \<and> j < PoseState_DOF + 6
                 then C (i - PoseState_DOF) (j - PoseState_DOF)
            else 0)"
  by (intro ext) (auto simp: augmented_state_cov_def set_block_def mat_zero_def)

lemma set_subblock_entry:
  "set_subblock M f B i j =
     (if in_block f i j then B (i - field_idx f) (j - field_idx f) else M i j)"
  by (simp add: set_subblock_def set_block_def in_block_def)

lemma subblock_entry:
  "in_block f i j \<Longrightarrow> subblock M f (i - field_idx f) (j - field_idx f) = M i j"
  by (auto simp: subblock_def block_def in_block_def)

lemma identity_entry:
  "in_block f i j
   \<Longrightarrow> mat_identity (i - field_idx f) (j - field_idx f) = (if i = j then 1 else 0)"
  by (auto simp: mat_identity_def in_block_def)

lemma blocks_disjoint:
  "in_block F_orientation i j \<Longrightarrow> \<not> in_block F_water_velocity i j"
  "in_block F_orientation i j \<Longrightarrow> \<not> in_block F_water_velocity_below i j"
  "in_block F_water_velocity i j \<Longrightarrow> \<not> in_block F_water_velocity_below i j"
  by (simp_all add: in_block_def field_layout)

lemma process_noise_entry:
  "process_noise obj delta_t i j =
     delta_t ^ 2 *
        (if in_block F_orientation i j then
           mat_mult3
             (mat_mult3 (quat_matrix (orientation (ukf_mu (ukf obj))))
                        (subblock (process_noise_cov obj) F_orientation))
             (mat_transpose (quat_matrix (orientation (ukf_mu (ukf obj)))))
             (i - field_idx F_orientation) (j - field_idx F_orientation)
         else if in_block F_water_velocity i j \<or> in_block F_water_velocity_below i j then
           process_noise_cov obj i j
           + (if i = j then 1 else 0) * water_velocity_scale (filter_parameter obj)
             * squaredNorm (x3 (velocity (ukf_mu (ukf obj))), y3 (velocity (ukf_mu (ukf obj))),
                            10 * z3 (velocity (ukf_mu (ukf obj))))
             * delta_t
         else process_noise_cov obj i j)"
proof -
  consider (o) "in_block F_orientation i j"
    | (w) "\<not> in_block F_orientation i j" "in_block F_water_velocity i j"
    | (b) "\<not> in_block F_orientation i j" "\<not> in_block F_water_velocity i j"
          "in_block F_water_velocity_below i j"
    | (n) "\<not> in_block F_orientation i j" "\<not> in_block F_water_velocity i j"
          "\<not> in_block F_water_velocity_below i j"
    by blast
  then show ?thesis
  proof cases
    case o
    then show ?thesis
      by (simp add: process_noise_def Let_def mat_scale_def set_subblock_entry blocks_disjoint)
  next
    case w
    then show ?thesis
      by (simp add: process_noise_def Let_def mat_scale_def mat_add_def set_subblock_entry
          blocks_disjoint subblock_entry identity_entry)
  next
    case b
    then show ?thesis
      by (simp add: process_noise_def Let_def mat_scale_def mat_add_def set_subblock_entry
          subblock_entry identity_entry)
  next
    case n
    then show ?thesis
      by (simp add: process_noise_def Let_def mat_scale_def set_subblock_entry)
  qed
qed

section \<open>The claims\<close>

text \<open>
  C1 (as amended). The gate of every overload of \<open>integrateMeasurement\<close>. Under the p95
  gate an update is rejected exactly when the squared Mahalanobis distance of the
  innovation exceeds 5.991, and a rejected update leaves the filter's mean and
  covariance as they were. XY_Position, GeographicPosition and WaterVelocityMeasurement
  are integrated under the p95 gate; Velocity, Acceleration, Z_Position, Pressure, body
  efforts (both modes) and every visual feature are integrated under the accept-any
  gate. RotationRate runs no update and has no gate: the reading is latched and the
  filter's mean and covariance stay as they are.
\<close>

theorem integrateMeasurement_gates:
  "(innovation_distance engr z h R flt > 5.991 \<longrightarrow> p95_update engr z h R flt = flt)
   \<and> (\<not> innovation_distance engr z h R flt > 5.991
        \<longrightarrow> p95_update engr z h R flt = accepted_update engr z h R flt)
   \<and> integrateMeasurement_XY_Position chk2 eng2 obj m2 =
     (if chk2 (mu m2) (cov m2)
      then Inr (obj \<lparr> ukf := p95_update eng2 (mu m2) measurementXYPosition (cov m2) (ukf obj) \<rparr>)
      else Inl BadMeasurement)
   \<and> integrateMeasurement_GeographicPosition chk2 ext eng2 obj m2 gps_in_body =
     (if chk2 (mu m2) (cov m2)
      then Inr (obj \<lparr> ukf :=
             p95_update eng2
               (sub2 (worldToNav ext (projection obj) (fst (mu m2)) (snd (mu m2)))
                     (x3 (quat_rotate (orientation (ukf_mu (ukf obj))) gps_in_body),
                      y3 (quat_rotate (orientation (ukf_mu (ukf obj))) gps_in_body)))
               measurementXYPosition (cov m2) (ukf obj) \<rparr>)
      else Inl BadMeasurement)
   \<and> integrateMeasurement_WaterVelocity chk2 eng2 obj m2 w =
     (if chk2 (mu m2) (cov m2)
      then Inr (obj \<lparr> ukf := p95_update eng2 (mu m2) (\<lambda>s. measurementWaterCurrents s w)
                                (cov m2) (ukf obj) \<rparr>)
      else Inl BadMeasurement)
   \<and> integrateMeasurement_Velocity chk3 eng3 obj m3 =
     (if chk3 (mu m3) (cov m3)
      then Inr (obj \<lparr> ukf := accepted_update eng3 (mu m3) measurementVelocity (cov m3) (ukf obj) \<rparr>)
      else Inl BadMeasurement)
   \<and> integrateMeasurement_Acceleration chk3 eng3 obj m3 =
     (if chk3 (mu m3) (cov m3)
      then Inr (obj \<lparr> ukf := accepted_update eng3 (mu m3) measurementAcceleration (cov m3)
                                (ukf obj) \<rparr>)
      else Inl BadMeasurement)
   \<and> integrateMeasurement_Z_Position chk1 eng1 obj m1 =
     (if chk1 (mu m1) (cov m1)
      then Inr (obj \<lparr> ukf := accepted_update eng1 (mu m1) measurementZPosition (cov m1) (ukf obj) \<rparr>)
      else Inl BadMeasurement)
   \<and> integrateMeasurement_Pressure chk1 eng1 obj m1 r =
     (if chk1 (mu m1) (cov m1)
      then Inr (obj \<lparr> ukf :=
             accepted_update eng1 (mu m1)
               (\<lambda>s. measurementPressureSensor s r (atmospheric_pressure (filter_parameter obj)))
               (cov m1) (ukf obj) \<rparr>)
      else Inl BadMeasurement)
   \<and> integrateMeasurement_BodyEfforts chk6 ext eng6 obj m6 True =
     (if chk6 (mu m6) (cov m6)
      then Inr (obj \<lparr> ukf :=
             accepted_update eng6 (mu m6)
               (\<lambda>s. constrainVelocity ext s (dynamic_model obj)
                      (imu_in_body (filter_parameter obj)) (getRotationRate ext obj)
                      (fst (water_velocity (ukf_mu (ukf obj))),
                       snd (water_velocity (ukf_mu (ukf obj))), 0)
                      (orientation (ukf_mu (ukf obj)))
                      (sub3 (quat_rotate (quat_inverse (orientation (ukf_mu (ukf obj))))
                               (acceleration (ukf_mu (ukf obj))))
                            (cross (getRotationRate ext obj)
                               (cross (getRotationRate ext obj)
                                  (imu_in_body (filter_parameter obj))))))
               (cov m6) (ukf obj) \<rparr>)
      else Inl BadMeasurement)
   \<and> integrateMeasurement_BodyEfforts chk6 ext eng6 obj m6 False =
     (if chk6 (mu m6) (cov m6)
      then (case eval_sigma
                   (\<lambda>s dm. measurementEfforts ext s dm (imu_in_body (filter_parameter obj))
                             (getRotationRate ext obj))
                   (sigma_points eng6 (ukf obj)) (dynamic_model obj) of
              (dm, Inl e) \<Rightarrow> Inl e
            | (dm, Inr Z) \<Rightarrow>
                Inr (obj \<lparr> ukf := posterior eng6 (ukf obj) (sigma_points eng6 (ukf obj)) Z
                                     (mu m6) (cov m6),
                           dynamic_model := dm \<rparr>))
      else Inl BadMeasurement)
   \<and> marker_loop chk2 ext engm corners features camera_config camera_in_IMU i au =
     (if i < length corners \<or> i < length features then
        (case vector_at corners i of
           None \<Rightarrow> Inl OutOfBounds
         | Some c \<Rightarrow>
             if chk2 (mu c) (cov c) then
               (case vector_at features i of
                  None \<Rightarrow> Inl OutOfBounds
                | Some f \<Rightarrow>
                    marker_loop chk2 ext engm corners features camera_config camera_in_IMU (Suc i)
                      (feature_update ext engm camera_config camera_in_IMU au (c, f)))
             else Inl BadMeasurement)
      else Inr au)
   \<and> integrateMeasurement_RotationRate chk3 obj m3 =
     (if chk3 (mu m3) (cov m3) then Inr (obj \<lparr> rotation_rate := mu m3 \<rparr>)
      else Inl BadMeasurement)"
proof -
  have gate: "(innovation_distance engr z h R flt > 5.991 \<longrightarrow> p95_update engr z h R flt = flt)
   \<and> (\<not> innovation_distance engr z h R flt > 5.991
        \<longrightarrow> p95_update engr z h R flt = accepted_update engr z h R flt)"
    by (simp add: p95_update_def)
  have full: "integrateMeasurement_BodyEfforts chk6 ext eng6 obj m6 False =
     (if chk6 (mu m6) (cov m6)
      then (case eval_sigma
                   (\<lambda>s dm. measurementEfforts ext s dm (imu_in_body (filter_parameter obj))
                             (getRotationRate ext obj))
                   (sigma_points eng6 (ukf obj)) (dynamic_model obj) of
              (dm, Inl e) \<Rightarrow> Inl e
            | (dm, Inr Z) \<Rightarrow>
                Inr (obj \<lparr> ukf := posterior eng6 (ukf obj) (sigma_points eng6 (ukf obj)) Z
                                     (mu m6) (cov m6),
                           dynamic_model := dm \<rparr>))
      else Inl BadMeasurement)"
    by (simp add: integrateMeasurement_BodyEfforts_def ukfom_update_shared_def Let_def
        accept_any_mahalanobis_distance_def split: prod.splits sum.splits)
  have rest:
    "integrateMeasurement_XY_Position chk2 eng2 obj m2 =
     (if chk2 (mu m2) (cov m2)
      then Inr (obj \<lparr> ukf := p95_update eng2 (mu m2) measurementXYPosition (cov m2) (ukf obj) \<rparr>)
      else Inl BadMeasurement)"
    "integrateMeasurement_WaterVelocity chk2 eng2 obj m2 w =
     (if chk2 (mu m2) (cov m2)
      then Inr (obj \<lparr> ukf := p95_update eng2 (mu m2) (\<lambda>s. measurementWaterCurrents s w)
                                (cov m2) (ukf obj) \<rparr>)
      else Inl BadMeasurement)"
    "integrateMeasurement_Velocity chk3 eng3 obj m3 =
     (if chk3 (mu m3) (cov m3)
      then Inr (obj \<lparr> ukf := accepted_update eng3 (mu m3) measurementVelocity (cov m3) (ukf obj) \<rparr>)
      else Inl BadMeasurement)"
    "integrateMeasurement_Acceleration chk3 eng3 obj m3 =
     (if chk3 (mu m3) (cov m3)
      then Inr (obj \<lparr> ukf := accepted_update eng3 (mu m3) measurementAcceleration (cov m3)
                                (ukf obj) \<rparr>)
      else Inl BadMeasurement)"
    "integrateMeasurement_Z_Position chk1 eng1 obj m1 =
     (if chk1 (mu m1) (cov m1)
      then Inr (obj \<lparr> ukf := accepted_update eng1 (mu m1) measurementZPosition (cov m1) (ukf obj) \<rparr>)
      else Inl BadMeasurement)"
    "integrateMeasurement_Pressure chk1 eng1 obj m1 r =
     (if chk1 (mu m1) (cov m1)
      then Inr (obj \<lparr> ukf :=
             accepted_update eng1 (mu m1)
               (\<lambda>s. measurementPressureSensor s r (atmospheric_pressure (filter_parameter obj)))
               (cov m1) (ukf obj) \<rparr>)
      else Inl BadMeasurement)"
    "integrateMeasurement_RotationRate chk3 obj m3 =
     (if chk3 (mu m3) (cov m3) then Inr (obj \<lparr> rotation_rate := mu m3 \<rparr>)
      else Inl BadMeasurement)"
    by (simp_all add: integrateMeasurement_XY_Position_def integrateMeasurement_WaterVelocity_def
        integrateMeasurement_Velocity_def integrateMeasurement_Acceleration_def
        integrateMeasurement_Z_Position_def integrateMeasurement_Pressure_def
        integrateMeasurement_RotationRate_def update_p95 update_any)
  have geo: "integrateMeasurement_GeographicPosition chk2 ext eng2 obj m2 gps_in_body =
     (if chk2 (mu m2) (cov m2)
      then Inr (obj \<lparr> ukf :=
             p95_update eng2
               (sub2 (worldToNav ext (projection obj) (fst (mu m2)) (snd (mu m2)))
                     (x3 (quat_rotate (orientation (ukf_mu (ukf obj))) gps_in_body),
                      y3 (quat_rotate (orientation (ukf_mu (ukf obj))) gps_in_body)))
               measurementXYPosition (cov m2) (ukf obj) \<rparr>)
      else Inl BadMeasurement)"
    by (simp add: integrateMeasurement_GeographicPosition_def update_p95 Let_def)
  have vel: "integrateMeasurement_BodyEfforts chk6 ext eng6 obj m6 True =
     (if chk6 (mu m6) (cov m6)
      then Inr (obj \<lparr> ukf :=
             accepted_update eng6 (mu m6)
               (\<lambda>s. constrainVelocity ext s (dynamic_model obj)
                      (imu_in_body (filter_parameter obj)) (getRotationRate ext obj)
                      (fst (water_velocity (ukf_mu (ukf obj))),
                       snd (water_velocity (ukf_mu (ukf obj))), 0)
                      (orientation (ukf_mu (ukf obj)))
                      (sub3 (quat_rotate (quat_inverse (orientation (ukf_mu (ukf obj))))
                               (acceleration (ukf_mu (ukf obj))))
                            (cross (getRotationRate ext obj)
                               (cross (getRotationRate ext obj)
                                  (imu_in_body (filter_parameter obj))))))
               (cov m6) (ukf obj) \<rparr>)
      else Inl BadMeasurement)"
    by (simp add: integrateMeasurement_BodyEfforts_def update_any Let_def)
  note loop = marker_loop_step [of chk2 ext engm corners features camera_config camera_in_IMU i au]
  from gate loop full rest geo vel show ?thesis by blast
qed

text \<open>
  The gate facts on the toy engine, whose distance is the entry \<open>R 0 0\<close> of the noise
  matrix: with distance 10 the update is rejected and the filter is unchanged, with
  distance 1 it is accepted.
\<close>

theorem integrateMeasurement_gates_witness:
  "innovation_distance (sample_engine :: (PoseState, vec2) engine) (0, 0) measurementXYPosition
       (\<lambda>i j. 10) (ukf sample_filter) > 5.991
   \<and> p95_update (sample_engine :: (PoseState, vec2) engine) (0, 0) measurementXYPosition
       (\<lambda>i j. 10) (ukf sample_filter) = ukf sample_filter
   \<and> \<not> innovation_distance (sample_engine :: (PoseState, vec2) engine) (0, 0)
         measurementXYPosition (\<lambda>i j. 1) (ukf sample_filter) > 5.991
   \<and> p95_update (sample_engine :: (PoseState, vec2) engine) (0, 0) measurementXYPosition
       (\<lambda>i j. 1) (ukf sample_filter)
     = accepted_update (sample_engine :: (PoseState, vec2) engine) (0, 0) measurementXYPosition
         (\<lambda>i j. 1) (ukf sample_filter)"
proof -
  have far: "innovation_distance (sample_engine :: (PoseState, vec2) engine) (0, 0)
               measurementXYPosition (\<lambda>i j. 10) (ukf sample_filter) > 5.991"
    by (simp add: innovation_distance_def sample_engine_def)
  have near: "\<not> innovation_distance (sample_engine :: (PoseState, vec2) engine) (0, 0)
                  measurementXYPosition (\<lambda>i j. 1) (ukf sample_filter) > 5.991"
    by (simp add: innovation_distance_def sample_engine_def)
  note rejected =
    integrateMeasurement_gates [where engr = "sample_engine :: (PoseState, vec2) engine"
      and z = "(0, 0)" and h = measurementXYPosition and R = "\<lambda>i j. 10"
      and flt = "ukf sample_filter", THEN conjunct1, THEN mp, OF far]
  note accepted =
    integrateMeasurement_gates [where engr = "sample_engine :: (PoseState, vec2) engine"
      and z = "(0, 0)" and h = measurementXYPosition and R = "\<lambda>i j. 1"
      and flt = "ukf sample_filter", THEN conjunct2, THEN conjunct1, THEN mp, OF near]
  from far rejected near accepted show ?thesis by (intro conjI)
qed

text \<open>
  C1 as stated fails for RotationRate: its overload is not an accept-any update, for no
  measurement function. With every sample accepted by \<open>checkMeasurment\<close>, the toy
  engine's posterior would replace the covariance, and the overload leaves it alone.
\<close>

theorem rotation_rate_runs_no_update:
  "\<not> (\<exists>h. \<forall>(eng :: (PoseState, vec3) engine) obj m obj'.
         integrateMeasurement_RotationRate (\<lambda>a b. True) obj m = Inr obj'
         \<longrightarrow> ukf obj' = accepted_update eng (mu m) h (cov m) (ukf obj))"
proof
  assume "\<exists>h. \<forall>(eng :: (PoseState, vec3) engine) obj m obj'.
         integrateMeasurement_RotationRate (\<lambda>a b. True) obj m = Inr obj'
         \<longrightarrow> ukf obj' = accepted_update eng (mu m) h (cov m) (ukf obj)"
  then obtain h where h: "\<And>(eng :: (PoseState, vec3) engine) obj m obj'.
         integrateMeasurement_RotationRate (\<lambda>a b. True) obj m = Inr obj'
         \<Longrightarrow> ukf obj' = accepted_update eng (mu m) h (cov m) (ukf obj)"
    by blast
  have "integrateMeasurement_RotationRate (\<lambda>a b. True) sample_filter
          \<lparr> mu = (1, 1, 1), cov = mat_zero \<rparr>
        = Inr (sample_filter \<lparr> rotation_rate := (1, 1, 1) \<rparr>)"
    by (simp add: integrateMeasurement_RotationRate_def)
  from h [OF this, of sample_engine]
  have "ukf_sigma (ukf (sample_filter \<lparr> rotation_rate := (1, 1, 1) \<rparr>)) 0 0
          = ukf_sigma (accepted_update sample_engine (1, 1, 1) h mat_zero (ukf sample_filter)) 0 0"
    by simp
  then show False
    by (simp add: accepted_update_def sample_engine_def mat_zero_def sample_filter_def
        PoseUKF_init_def mat_identity_def)
qed

text \<open>
  C2. For every state, latched gyro reading and time step, the process model advances
  the position by velocity times the step, advances the orientation by boxplus with
  \<open>(orientation \<sqdot> (\<omega> - bias_gyro) - \<omega>\<^sub>e)\<close> times the step, where \<open>\<omega>\<^sub>e\<close> is
  \<open>EARTHW \<sqdot> (cos \<phi>, 0, sin \<phi>)\<close> at the latitude of the projected current position,
  advances the velocity by acceleration times the step, and returns acceleration and
  gravity unchanged.
\<close>

theorem processModel_kinematics:
  "position (processModel ext state rr proj io lo qo wo fp dt)
     = add3 (position state) (scale3 dt (velocity state))
   \<and> orientation (processModel ext state rr proj io lo qo wo fp dt)
     = boxplus_SO3 ext (orientation state)
         (sub3 (quat_rotate (orientation state) (sub3 rr (bias_gyro state)))
               (EARTHW * cos (fst (navToWorld ext proj (x3 (position state))
                                     (y3 (position state)))),
                0,
                EARTHW * sin (fst (navToWorld ext proj (x3 (position state))
                                     (y3 (position state))))))
         dt
   \<and> velocity (processModel ext state rr proj io lo qo wo fp dt)
     = add3 (velocity state) (scale3 dt (acceleration state))
   \<and> acceleration (processModel ext state rr proj io lo qo wo fp dt) = acceleration state
   \<and> gravity (processModel ext state rr proj io lo qo wo fp dt) = gravity state"
  by (simp add: processModel_def Let_def boxplus3_def earth_rotation_def split: prod.splits)

text \<open>
  C3 (as amended). For every state and time step the process model applies first-order
  Gauss-Markov relaxation \<open>x \<oplus>= (-(x - \<mu>*) / \<tau>) \<sqdot> \<Delta>t\<close> to bias_gyro, bias_acc, inertia,
  lin_damping, quad_damping, water_velocity, water_velocity_below, bias_adcp and
  water_density. The offset is the configured one for bias_gyro and bias_acc, the
  offset argument for inertia, lin_damping, quad_damping and water_density, and zero for
  water_velocity, water_velocity_below and bias_adcp. On every filter reachable from a
  construction, the offset arguments the prediction step passes are the values of the
  initial state the constructor was given.
\<close>

theorem processModel_relaxation_offsets:
  "(reachable initial_state obj \<longrightarrow>
        ukf (predictionStepImpl ext eng obj delta_t) =
          ukfom_predict eng
            (\<lambda>s. processModel ext s (rotation_rate obj) (projection obj) (inertia initial_state)
                   (lin_damping initial_state) (quad_damping initial_state)
                   (water_density initial_state) (filter_parameter obj) delta_t)
            (process_noise obj delta_t) (ukf obj))
   \<and> bias_gyro (processModel ext state rr proj io lo qo wo fp dt)
     = gauss_markov3 (bias_gyro state) (gyro_bias_offset fp) (gyro_bias_tau fp) dt
   \<and> bias_acc (processModel ext state rr proj io lo qo wo fp dt)
     = gauss_markov3 (bias_acc state) (acc_bias_offset fp) (acc_bias_tau fp) dt
   \<and> inertia (processModel ext state rr proj io lo qo wo fp dt)
     = gauss_markov_mat (inertia state) io (inertia_tau fp) dt
   \<and> lin_damping (processModel ext state rr proj io lo qo wo fp dt)
     = gauss_markov_mat (lin_damping state) lo (lin_damping_tau fp) dt
   \<and> quad_damping (processModel ext state rr proj io lo qo wo fp dt)
     = gauss_markov_mat (quad_damping state) qo (quad_damping_tau fp) dt
   \<and> water_velocity (processModel ext state rr proj io lo qo wo fp dt)
     = gauss_markov2 (water_velocity state) (0, 0) (water_velocity_tau fp) dt
   \<and> water_velocity_below (processModel ext state rr proj io lo qo wo fp dt)
     = gauss_markov2 (water_velocity_below state) (0, 0) (water_velocity_tau fp) dt
   \<and> bias_adcp (processModel ext state rr proj io lo qo wo fp dt)
     = gauss_markov2 (bias_adcp state) (0, 0) (adcp_bias_tau fp) dt
   \<and> water_density (processModel ext state rr proj io lo qo wo fp dt)
     = gauss_markov (water_density state) wo (water_density_tau fp) dt"
proof -
  have "reachable initial_state obj \<longrightarrow>
        ukf (predictionStepImpl ext eng obj delta_t) =
          ukfom_predict eng
            (\<lambda>s. processModel ext s (rotation_rate obj) (projection obj) (inertia initial_state)
                   (lin_damping initial_state) (quad_damping initial_state)
                   (water_density initial_state) (filter_parameter obj) delta_t)
            (process_noise obj delta_t) (ukf obj)"
    by (auto simp: predictionStepImpl_def dest: reachable_offsets)
  then show ?thesis
    by (simp only: processModel_relaxation simp_thms)
qed

text \<open>The freshly constructed sample filter is reachable; its prediction step.\<close>

theorem processModel_relaxation_offsets_witness:
  "reachable sample_state sample_filter
   \<and> ukf (predictionStepImpl sample_collaborators (sample_engine :: (PoseState, unit) engine)
            sample_filter 1) =
       ukfom_predict (sample_engine :: (PoseState, unit) engine)
         (\<lambda>s. processModel sample_collaborators s (rotation_rate sample_filter)
                (projection sample_filter) (inertia sample_state) (lin_damping sample_state)
                (quad_damping sample_state) (water_density sample_state)
                (filter_parameter sample_filter) 1)
         (process_noise sample_filter 1) (ukf sample_filter)"
proof -
  have r: "reachable sample_state sample_filter"
    unfolding sample_filter_def by (rule reachable.constructed)
  note t =
    processModel_relaxation_offsets [where initial_state = sample_state
      and obj = sample_filter and ext = sample_collaborators and delta_t = 1
      and eng = "sample_engine :: (PoseState, unit) engine", THEN conjunct1, THEN mp, OF r]
  from r t show ?thesis by (rule conjI)
qed

text \<open>
  C3 as stated fails for bias_adcp: the configuration has no offset for it. With all time
  constants and the time step equal to 1 a relaxed field lands on its offset: the gyro
  and accelerometer biases land on their configured offsets, bias_adcp lands on zero.
\<close>

theorem bias_adcp_relaxes_to_zero:
  "gyro_bias_offset sample_parameter = (7, 7, 7)
   \<and> bias_gyro (processModel sample_collaborators sample_state (0, 0, 0) sample_location
        mat_zero mat_zero mat_zero 0 sample_parameter 1) = (7, 7, 7)
   \<and> acc_bias_offset sample_parameter = (5, 5, 5)
   \<and> bias_acc (processModel sample_collaborators sample_state (0, 0, 0) sample_location
        mat_zero mat_zero mat_zero 0 sample_parameter 1) = (5, 5, 5)
   \<and> bias_adcp sample_state = (1, 2)
   \<and> bias_adcp (processModel sample_collaborators sample_state (0, 0, 0) sample_location
        mat_zero mat_zero mat_zero 0 sample_parameter 1) = (0, 0)"
  by (simp add: processModel_relaxation sample_state_def sample_parameter_def gauss_markov_def)

text \<open>
  C4 (as amended). The body-efforts measurement model is deterministic but not free of
  side effects. Every evaluation overwrites the entries \<open>(i, j)\<close> with \<open>i\<close> and \<open>j\<close> among 0,
  1 and 5 of the shared hydrodynamic model's inertia matrix and of its two damping
  matrices with the state's inertia, lin_damping and quad_damping blocks, and leaves
  every other entry as it was. Whatever state the model was last evaluated on, an
  evaluation on a given state returns the same result and leaves the same model.
\<close>

theorem measurementEfforts_overwrites_model:
  "inertia_matrix (fst (measurementEfforts ext state dm imu rr)) =
     (\<lambda>i j. if (i = 0 \<or> i = 1 \<or> i = 5) \<and> (j = 0 \<or> j = 1 \<or> j = 5)
            then inertia state (if i = 5 then 2 else i) (if j = 5 then 2 else j)
            else inertia_matrix dm i j)
   \<and> fst (damping_matrices (fst (measurementEfforts ext state dm imu rr))) =
     (\<lambda>i j. if (i = 0 \<or> i = 1 \<or> i = 5) \<and> (j = 0 \<or> j = 1 \<or> j = 5)
            then lin_damping state (if i = 5 then 2 else i) (if j = 5 then 2 else j)
            else fst (damping_matrices dm) i j)
   \<and> snd (damping_matrices (fst (measurementEfforts ext state dm imu rr))) =
     (\<lambda>i j. if (i = 0 \<or> i = 1 \<or> i = 5) \<and> (j = 0 \<or> j = 1 \<or> j = 5)
            then quad_damping state (if i = 5 then 2 else i) (if j = 5 then 2 else j)
            else snd (damping_matrices dm) i j)
   \<and> measurementEfforts ext state (fst (measurementEfforts ext state' dm imu' rr')) imu rr
       = measurementEfforts ext state dm imu rr"
proof -
  have m: "\<And>s d i r. fst (measurementEfforts ext s d i r) = set_damping_parameters s d"
    by (rule measurementEfforts_model)
  have "measurementEfforts ext state (set_damping_parameters state' dm) imu rr
          = measurementEfforts ext state dm imu rr"
    by (simp add: measurementEfforts_def set_damping_parameters_twice)
  then show ?thesis
    by (simp add: m set_damping_parameters_def overwrite_blocks_entries)
qed

text \<open>
  C4 as stated fails: one evaluation on the sample state changes the entry \<open>(0, 0)\<close> of the
  shared model's inertia matrix from 0 to 1.
\<close>

theorem measurementEfforts_mutates_model:
  "inertia_matrix sample_model 0 0 = 0
   \<and> inertia_matrix
        (fst (measurementEfforts sample_collaborators sample_state sample_model (0, 0, 0)
                (0, 0, 0))) 0 0 = 1"
  by (simp add: measurementEfforts_model set_damping_parameters_def overwrite_blocks_entries
      sample_model_def sample_state_def mat_zero_def mat_identity_def)

text \<open>
  C5. In \<open>measurementEfforts\<close> the regression input \<open>X\<close> is default-constructed with size zero
  and written at the indices 0 to 5 without a resize: each of the six writes is out of
  bounds, so building \<open>X\<close> fails and every evaluation of the function ends in the
  out-of-bounds error.
\<close>

theorem measurementEfforts_X_out_of_bounds:
  "length VectorXd_default = 0
   \<and> coeff_write VectorXd_default 0 v0 = None
   \<and> coeff_write VectorXd_default 1 v1 = None
   \<and> coeff_write VectorXd_default 2 v2 = None
   \<and> coeff_write VectorXd_default 3 v3 = None
   \<and> coeff_write VectorXd_default 4 v4 = None
   \<and> coeff_write VectorXd_default 5 v5 = None
   \<and> build_X velocity_6d acceleration_6d = None
   \<and> snd (measurementEfforts ext state dm imu rr) = Inl OutOfBounds"
  by (simp add: VectorXd_default_def coeff_write_def build_X_def measurementEfforts_def Let_def)

text \<open>
  C6. The ten-entry name table of \<open>measurementEfforts\<close> is assigned at index 4 twice and
  never at index 5, and the call of \<open>predict_efforts\<close> is written with "fitout_y" at the
  position meant for "fitout_x" and with the empty string at the position meant for
  "fitout_y". No evaluation of \<open>measurementEfforts\<close> gets as far as that call: on the sample
  state, as on every state, it ends in the out-of-bounds write to \<open>X\<close>, with the same
  result whatever \<open>predict_efforts\<close> is, so \<open>predict_efforts\<close> receives no name at all.
\<close>

theorem measurementEfforts_passes_no_names:
  "snd (measurementEfforts sample_collaborators sample_state sample_model (0, 0, 0) (0, 0, 0))
     = Inl OutOfBounds
   \<and> measurementEfforts ext state dm imu rr = (set_damping_parameters state dm, Inl OutOfBounds)
   \<and> measurementEfforts (ext \<lparr> predict_efforts := p \<rparr>) state dm imu rr
       = measurementEfforts ext state dm imu rr
   \<and> f_names = [''scaler_params'', ''params_x'', ''params_y'', ''params_yaw'', ''fitout_y'', [],
                ''fitout_yaw'', ''s_x'', ''s_y'', ''s_yaw'']
   \<and> call_predict_efforts ext X =
       predict_efforts ext X ''scaler_params'' ''params_x'' ''params_y'' ''params_yaw''
         ''fitout_y'' [] ''fitout_yaw'' ''s_x'' ''s_y'' ''s_yaw''"
proof -
  have e: "\<And>e s d i r.
             measurementEfforts e s d i r = (set_damping_parameters s d, Inl OutOfBounds)"
    by (simp add: measurementEfforts_def Let_def build_X_def coeff_write_def VectorXd_default_def)
  show ?thesis
    by (simp add: e f_names_def call_predict_efforts_def eval_nat_numeral)
qed

text \<open>
  C7 (as amended). The feature loop runs while the index is below the size of either
  input vector. Every access \<open>marker_corners[i]\<close> and \<open>feature_positions[i]\<close> at an index
  the loop condition admits is in bounds if and only if the two vectors have equal
  length. With equal lengths the loop never ends in the out-of-bounds error. With
  unequal lengths it always ends in an error: in the out-of-bounds error when
  \<open>checkMeasurment\<close> accepts every corner measurement it is asked about before the missing
  element is read (in particular when it accepts all of them), and otherwise at the
  refused measurement, before any access is out of bounds.
\<close>

theorem marker_loop_bounds:
  "((\<forall>i. i < length mc \<or> i < length fp \<longrightarrow> vector_at mc i \<noteq> None \<and> vector_at fp i \<noteq> None)
      \<longleftrightarrow> length mc = length fp)
   \<and> (length mc = length fp \<longrightarrow> marker_loop chk ext eng mc fp cc ci 0 au \<noteq> Inl OutOfBounds)
   \<and> (length mc \<noteq> length fp \<and> (\<forall>c\<in>set mc. chk (mu c) (cov c))
        \<longrightarrow> marker_loop chk ext eng mc fp cc ci 0 au = Inl OutOfBounds)
   \<and> (length mc \<noteq> length fp
        \<longrightarrow> marker_loop chk ext eng mc fp cc ci 0 au =
              (if (\<forall>k < corners_checked (length mc) (length fp). chk (mu (mc ! k)) (cov (mc ! k)))
               then Inl OutOfBounds else Inl BadMeasurement))"
proof -
  have a: "(\<forall>i. i < length mc \<or> i < length fp
                \<longrightarrow> vector_at mc i \<noteq> None \<and> vector_at fp i \<noteq> None)
      \<longleftrightarrow> length mc = length fp"
  proof
    assume h: "\<forall>i. i < length mc \<or> i < length fp
                  \<longrightarrow> vector_at mc i \<noteq> None \<and> vector_at fp i \<noteq> None"
    show "length mc = length fp"
    proof (rule ccontr)
      assume "length mc \<noteq> length fp"
      then have "min (length mc) (length fp) < length mc
                 \<or> min (length mc) (length fp) < length fp"
        by auto
      with h have "vector_at mc (min (length mc) (length fp)) \<noteq> None
                   \<and> vector_at fp (min (length mc) (length fp)) \<noteq> None" by blast
      then show False by (auto simp: vector_at_def split: if_splits)
    qed
  next
    assume "length mc = length fp"
    then show "\<forall>i. i < length mc \<or> i < length fp
                   \<longrightarrow> vector_at mc i \<noteq> None \<and> vector_at fp i \<noteq> None"
      by (simp add: vector_at_def)
  qed
  have b: "length mc = length fp \<longrightarrow> marker_loop chk ext eng mc fp cc ci 0 au \<noteq> Inl OutOfBounds"
    using marker_loop_equal_lengths by blast
  have c: "length mc \<noteq> length fp \<and> (\<forall>c\<in>set mc. chk (mu c) (cov c))
        \<longrightarrow> marker_loop chk ext eng mc fp cc ci 0 au = Inl OutOfBounds"
  proof (intro impI, elim conjE)
    assume ne: "length mc \<noteq> length fp" and ok: "\<forall>c\<in>set mc. chk (mu c) (cov c)"
    from ne have "0 < max (length mc) (length fp)" by auto
    with ne ok show "marker_loop chk ext eng mc fp cc ci 0 au = Inl OutOfBounds"
      by (rule marker_loop_unequal_lengths)
  qed
  have d: "length mc \<noteq> length fp
        \<longrightarrow> marker_loop chk ext eng mc fp cc ci 0 au =
              (if (\<forall>k < corners_checked (length mc) (length fp). chk (mu (mc ! k)) (cov (mc ! k)))
               then Inl OutOfBounds else Inl BadMeasurement)"
  proof
    assume ne: "length mc \<noteq> length fp"
    have "0 \<le> min (length mc) (length fp)" by simp
    from marker_loop_unequal_exact [OF ne this, of chk ext eng cc ci au]
    show "marker_loop chk ext eng mc fp cc ci 0 au =
              (if (\<forall>k < corners_checked (length mc) (length fp). chk (mu (mc ! k)) (cov (mc ! k)))
               then Inl OutOfBounds else Inl BadMeasurement)"
      by simp
  qed
  from a b c d show ?thesis by (intro conjI)
qed

text \<open>
  One corner with one feature position passes the loop; one accepted corner with no
  feature position ends in the out-of-bounds error.
\<close>

theorem marker_loop_bounds_witness:
  "length [sample_corner] = length [(0, 0, 1) :: vec3]
   \<and> marker_loop (\<lambda>a b. True) sample_collaborators sample_engine [sample_corner] [(0, 0, 1)]
       sample_camera sample_affine 0 sample_augmented \<noteq> Inl OutOfBounds
   \<and> length [sample_corner] \<noteq> length ([] :: vec3 list)
   \<and> marker_loop (\<lambda>a b. True) sample_collaborators sample_engine [sample_corner] []
       sample_camera sample_affine 0 sample_augmented = Inl OutOfBounds"
proof -
  have e: "length [sample_corner] = length [(0, 0, 1) :: vec3]" by simp
  have n: "length [sample_corner] \<noteq> length ([] :: vec3 list)
           \<and> (\<forall>c\<in>set [sample_corner]. True)" by simp
  note passes =
    marker_loop_bounds [where mc = "[sample_corner]" and fp = "[(0, 0, 1)]"
      and chk = "\<lambda>a b. True" and ext = sample_collaborators and eng = sample_engine
      and cc = sample_camera and ci = sample_affine and au = sample_augmented,
      THEN conjunct2, THEN conjunct1, THEN mp, OF e]
  note fails =
    marker_loop_bounds [where mc = "[sample_corner]" and fp = "[]"
      and chk = "\<lambda>a b. True" and ext = sample_collaborators and eng = sample_engine
      and cc = sample_camera and ci = sample_affine and au = sample_augmented,
      THEN conjunct2, THEN conjunct2, THEN conjunct1, THEN mp, OF n]
  from e passes n [THEN conjunct1] fails show ?thesis by (intro conjI)
qed

text \<open>
  C7 as stated fails where \<open>checkMeasurment\<close> refuses a corner: with one refused corner and
  no feature position the sizes differ, the only access made, \<open>marker_corners[0]\<close>, is in
  bounds, and the call ends at the refusal.
\<close>

theorem refused_corner_ends_before_out_of_bounds:
  "length [sample_corner] \<noteq> length ([] :: vec3 list)
   \<and> vector_at [sample_corner] 0 = Some sample_corner
   \<and> marker_loop (\<lambda>a b. False) sample_collaborators sample_engine [sample_corner] []
       sample_camera sample_affine 0 sample_augmented = Inl BadMeasurement"
  by (subst marker_loop_step) (simp add: vector_at_def)

text \<open>
  C8 (as amended). For every visual-marker batch with as many corners as feature
  positions, all accepted by \<open>checkMeasurment\<close>, \<open>integrateMeasurement\<close> builds an augmented
  state of dimension \<open>PoseState_DOF + 6\<close> whose covariance is block-diagonal (the top-left
  \<open>PoseState_DOF\<close>-square block is the current covariance, the bottom-right 6x6 block is
  the given marker-pose covariance, every other entry is zero), runs one accept-any
  update per feature correspondence on it, and replaces the main filter's mean and
  covariance by the PoseState component and the top-left \<open>PoseState_DOF\<close>-square block of
  the augmented posterior. With the fields of the state manifold, \<open>PoseState_DOF\<close> is 53,
  so the augmented state has 59 dimensions.
\<close>

theorem visual_update_augmented:
  "augmented_state_cov sigma C =
     (\<lambda>i j. if i < PoseState_DOF \<and> j < PoseState_DOF then sigma i j
            else if PoseState_DOF \<le> i \<and> i < PoseState_DOF + 6
                    \<and> PoseState_DOF \<le> j \<and> j < PoseState_DOF + 6
                 then C (i - PoseState_DOF) (j - PoseState_DOF)
            else 0)
   \<and> PoseState_DOF = 53
   \<and> (length mc = length fp \<and> (\<forall>c\<in>set mc. chk (mu c) (cov c)) \<longrightarrow>
        integrateMeasurement_VisualFeatures chk ext eng obj mc fp marker_pose C cc ci =
          (let prior = \<lparr> ukf_mu = \<lparr> filter_state = ukf_mu (ukf obj),
                                   marker_position = translation marker_pose,
                                   marker_orientation = SO3_of_rotation ext marker_pose \<rparr>,
                         ukf_sigma = augmented_state_cov (ukf_sigma (ukf obj)) C \<rparr>;
               post = foldl (feature_update ext eng cc ci) prior (zip mc fp)
           in Inr (obj \<lparr> ukf := \<lparr> ukf_mu = filter_state (ukf_mu post),
                                  ukf_sigma = block (ukf_sigma post) 0 0 PoseState_DOF
                                                PoseState_DOF \<rparr> \<rparr>)))"
proof -
  have "length mc = length fp \<and> (\<forall>c\<in>set mc. chk (mu c) (cov c)) \<longrightarrow>
        integrateMeasurement_VisualFeatures chk ext eng obj mc fp marker_pose C cc ci =
          (let prior = \<lparr> ukf_mu = \<lparr> filter_state = ukf_mu (ukf obj),
                                   marker_position = translation marker_pose,
                                   marker_orientation = SO3_of_rotation ext marker_pose \<rparr>,
                         ukf_sigma = augmented_state_cov (ukf_sigma (ukf obj)) C \<rparr>;
               post = foldl (feature_update ext eng cc ci) prior (zip mc fp)
           in Inr (obj \<lparr> ukf := \<lparr> ukf_mu = filter_state (ukf_mu post),
                                  ukf_sigma = block (ukf_sigma post) 0 0 PoseState_DOF
                                                PoseState_DOF \<rparr> \<rparr>))"
    by (simp add: integrateMeasurement_VisualFeatures_def Let_def marker_loop_fold)
  with augmented_entries DOF_value show ?thesis by blast
qed

text \<open>A batch of one corner and one feature position on the sample filter.\<close>

theorem visual_update_augmented_witness:
  "length [sample_corner] = length [(0, 0, 1) :: vec3]
   \<and> integrateMeasurement_VisualFeatures (\<lambda>a b. True) sample_collaborators sample_engine
       sample_filter [sample_corner] [(0, 0, 1)] sample_affine mat_identity sample_camera
       sample_affine =
          (let prior = \<lparr> ukf_mu = \<lparr> filter_state = ukf_mu (ukf sample_filter),
                                   marker_position = translation sample_affine,
                                   marker_orientation =
                                     SO3_of_rotation sample_collaborators sample_affine \<rparr>,
                         ukf_sigma = augmented_state_cov (ukf_sigma (ukf sample_filter))
                                       mat_identity \<rparr>;
               post = foldl (feature_update sample_collaborators sample_engine sample_camera
                               sample_affine) prior (zip [sample_corner] [(0, 0, 1)])
           in Inr (sample_filter
                     \<lparr> ukf := \<lparr> ukf_mu = filter_state (ukf_mu post),
                                ukf_sigma = block (ukf_sigma post) 0 0 PoseState_DOF
                                              PoseState_DOF \<rparr> \<rparr>))"
proof -
  have h: "length [sample_corner] = length [(0, 0, 1) :: vec3]
           \<and> (\<forall>c\<in>set [sample_corner]. True)" by simp
  note t =
    visual_update_augmented [where mc = "[sample_corner]" and fp = "[(0, 0, 1)]"
      and chk = "\<lambda>a b. True" and ext = sample_collaborators and eng = sample_engine
      and obj = sample_filter and marker_pose = sample_affine and C = mat_identity
      and cc = sample_camera and ci = sample_affine,
      THEN conjunct2, THEN conjunct2, THEN mp, OF h]
  from h [THEN conjunct1] t show ?thesis by (rule conjI)
qed

text \<open>
  C8 as stated fails on the dimensions: the state manifold has 53 dimensions, not 36, so
  the entry \<open>(36, 36)\<close> of the augmented covariance belongs to the block of the current
  covariance (here 2 on the diagonal) and the marker covariance (here 3 on the diagonal)
  starts at the entry \<open>(53, 53)\<close>.
\<close>

theorem augmented_block_not_36:
  "PoseState_DOF \<noteq> 36
   \<and> augmented_state_cov (\<lambda>i j. if i = j then 2 else 0) (\<lambda>i j. if i = j then 3 else 0) 36 36 = 2
   \<and> augmented_state_cov (\<lambda>i j. if i = j then 2 else 0) (\<lambda>i j. if i = j then 3 else 0) 53 53 = 3"
  by (simp add: augmented_entries DOF_value)

text \<open>
  C9. On every prediction step the process noise handed to the filter is the configured
  \<open>Q\<close> with its 3x3 orientation block replaced by \<open>R \<sqdot> Q\<^sub>o \<sqdot> R\<^sup>T\<close> for the current rotation
  matrix \<open>R\<close>, with \<open>s \<sqdot> |v|\<^sup>2 \<sqdot> \<Delta>t\<close> added on the diagonal of the 2x2 blocks of
  water_velocity and water_velocity_below, where \<open>v = (v\<^sub>x, v\<^sub>y, 10 \<sqdot> v\<^sub>z)\<close> is taken
  from the current velocity estimate and \<open>s\<close> is water_velocity_scale, and with every
  entry multiplied by \<open>\<Delta>t\<^sup>2\<close> at the end.
\<close>

theorem process_noise_modulation:
  "process_noise obj delta_t =
     (\<lambda>i j. delta_t ^ 2 *
        (if in_block F_orientation i j then
           mat_mult3
             (mat_mult3 (quat_matrix (orientation (ukf_mu (ukf obj))))
                        (subblock (process_noise_cov obj) F_orientation))
             (mat_transpose (quat_matrix (orientation (ukf_mu (ukf obj)))))
             (i - field_idx F_orientation) (j - field_idx F_orientation)
         else if in_block F_water_velocity i j \<or> in_block F_water_velocity_below i j then
           process_noise_cov obj i j
           + (if i = j then 1 else 0) * water_velocity_scale (filter_parameter obj)
             * squaredNorm (x3 (velocity (ukf_mu (ukf obj))), y3 (velocity (ukf_mu (ukf obj))),
                            10 * z3 (velocity (ukf_mu (ukf obj))))
             * delta_t
         else process_noise_cov obj i j))
   \<and> ukf (predictionStepImpl ext eng obj delta_t) =
       ukfom_predict eng
         (\<lambda>s. processModel ext s (rotation_rate obj) (projection obj) (inertia_offset obj)
                (lin_damping_offset obj) (quad_damping_offset obj) (water_density_offset obj)
                (filter_parameter obj) delta_t)
         (process_noise obj delta_t) (ukf obj)
   \<and> field_DOF F_orientation = 3 \<and> field_DOF F_water_velocity = 2
   \<and> field_DOF F_water_velocity_below = 2"
proof -
  have "process_noise obj delta_t = (\<lambda>i j. process_noise obj delta_t i j)" by simp
  then show ?thesis
    by (simp only: process_noise_entry) (simp add: predictionStepImpl_def)
qed

text \<open>
  C10. For every state the pressure measurement function returns
  \<open>P_atm - z_sensor \<sqdot> gravity \<sqdot> water_density\<close>, where \<open>z_sensor\<close> is the third component of
  \<open>position + orientation \<sqdot> r_sensor_in_imu\<close>; the pressure overload of
  \<open>integrateMeasurement\<close> passes the configured atmospheric pressure for \<open>P_atm\<close>. At depth 10
  with the sensor at the IMU origin, gravity 9.81, density 1025 and atmospheric pressure
  101325 the value is 201877.5.
\<close>

theorem measurementPressureSensor_value:
  "measurementPressureSensor state r P_atm =
     P_atm - z3 (add3 (position state) (quat_rotate (orientation state) r)) * gravity state
               * water_density state
   \<and> measurementPressureSensor
       (state \<lparr> position := (px, py, - 10), gravity := 9.81, water_density := 1025 \<rparr>)
       (0, 0, 0) 101325 = 201877.5
   \<and> integrateMeasurement_Pressure chk eng obj pressure r =
       (if chk (mu pressure) (cov pressure)
        then Inr (obj \<lparr> ukf :=
               ukfom_update eng (mu pressure)
                 (\<lambda>s. measurementPressureSensor s r (atmospheric_pressure (filter_parameter obj)))
                 (cov pressure) accept_any_mahalanobis_distance (ukf obj) \<rparr>)
        else Inl BadMeasurement)"
  by (simp add: measurementPressureSensor_def quat_rotate_zero integrateMeasurement_Pressure_def)

end
